theory Spec2Isabelle
  imports Main
begin

section \<open>JavaScript values and string helpers\<close>

text \<open>
  The functions of \<^verbatim>\<open>smc-hub/auth.ts\<close> are untyped in several arguments: the
  \<^verbatim>\<open>iterations\<close> of \<^verbatim>\<open>generate_hash\<close> is a number where the caller hashes a password
  and a string where it comes out of a cookie, the \<^verbatim>\<open>id\<close> of a profile "is often a
  number", and a list of emails may hold anything. \<open>jsval\<close> has the three shapes the
  code tells apart.
\<close>

datatype jsval = JUndefined | JNum int | JStr string

text \<open>Truthiness of a \<^verbatim>\<open>string | undefined\<close>: the empty string is falsy.\<close>

definition truthy :: "string option \<Rightarrow> bool" where
  "truthy v = (case v of None \<Rightarrow> False | Some s \<Rightarrow> s \<noteq> [])"

definition digit :: "nat \<Rightarrow> char" where
  "digit n = ''0123456789'' ! n"

function show_nat :: "nat \<Rightarrow> string" where
  "show_nat n = (if n < 10 then [digit n] else show_nat (n div 10) @ [digit (n mod 10)])"
  by pat_completeness auto
termination
  by (relation "measure (\<lambda>n. n)") auto

definition show_int :: "int \<Rightarrow> string" where
  "show_int n = (if n < 0 then CHR ''-'' # show_nat (nat (- n)) else show_nat (nat n))"

text \<open>A value inside a template string or a string concatenation.\<close>

definition js_string :: "jsval \<Rightarrow> string" where
  "js_string v = (case v of JUndefined \<Rightarrow> ''undefined'' | JNum n \<Rightarrow> show_int n | JStr s \<Rightarrow> s)"

definition opt_string :: "string option \<Rightarrow> string" where
  "opt_string v = (case v of None \<Rightarrow> ''undefined'' | Some s \<Rightarrow> s)"

text \<open>\<^verbatim>\<open>value.split("$")\<close>: the empty string splits into one empty field.\<close>

fun split_on :: "char \<Rightarrow> string \<Rightarrow> string list" where
  "split_on c [] = [[]]"
| "split_on c (x # xs) =
     (if x = c then [] # split_on c xs
      else (case split_on c xs of [] \<Rightarrow> [[x]] | w # ws \<Rightarrow> (x # w) # ws))"

text \<open>\<^verbatim>\<open>[...].join("$")\<close>.\<close>

fun join :: "string \<Rightarrow> string list \<Rightarrow> string" where
  "join sep [] = []"
| "join sep [x] = x"
| "join sep (x # y # ys) = x @ sep @ join sep (y # ys)"

text \<open>\<^verbatim>\<open>x[i]\<close> on an array: \<^verbatim>\<open>undefined\<close> past the end.\<close>

definition nth_opt :: "'a list \<Rightarrow> nat \<Rightarrow> 'a option" where
  "nth_opt xs i = (if i < length xs then Some (xs ! i) else None)"

text \<open>\<^verbatim>\<open>join\<close> writes an \<^verbatim>\<open>undefined\<close> element as the empty string.\<close>

definition join_field :: "string option \<Rightarrow> string" where
  "join_field v = (case v of None \<Rightarrow> [] | Some s \<Rightarrow> s)"

text \<open>\<^verbatim>\<open>name.lastIndexOf(" ")\<close>, with \<open>None\<close> for \<^verbatim>\<open>-1\<close>.\<close>

fun lastIndexOf :: "char \<Rightarrow> string \<Rightarrow> nat option" where
  "lastIndexOf c [] = None"
| "lastIndexOf c (x # xs) =
     (case lastIndexOf c xs of
        Some i \<Rightarrow> Some (Suc i)
      | None \<Rightarrow> (if x = c then Some 0 else None))"

section \<open>The runtime and the errors\<close>

text \<open>
  What the module imports from outside the repository or from files of the repository
  that are not at hand is a parameter:
  \<^item> \<open>createHmac rt algorithm salt data\<close> is
    \<^verbatim>\<open>crypto.createHmac(algorithm, salt).update(data).digest("hex")\<close>, \<open>None\<close> when it
    throws (an algorithm the runtime does not know);
  \<^item> \<open>to_number\<close> is the conversion of a string to a number that \<^verbatim>\<open>1 <= end\<close> and
    \<^verbatim>\<open>i <= end\<close> apply to a string \<^verbatim>\<open>end\<close>, \<open>None\<close> for \<^verbatim>\<open>NaN\<close>;
  \<^item> \<open>is_valid_email_address\<close> is \<^verbatim>\<open>misc.is_valid_email_address\<close>;
  \<^item> \<open>toLowerCase\<close> and \<open>trim\<close> are the string methods;
  \<^item> \<open>uuid_v4\<close> is the value \<^verbatim>\<open>uuid.v4()\<close> draws in this request;
  \<^item> \<open>password_hash_generate password algorithm saltLength iterations\<close> is
    \<^verbatim>\<open>password_hash_library.generate\<close> with the salt it draws in this request;
  \<^item> \<open>HELP_EMAIL\<close> is the constant of \<^verbatim>\<open>smc-util/theme\<close>.
\<close>

record env =
  createHmac :: "string \<Rightarrow> string \<Rightarrow> string \<Rightarrow> string option"
  to_number :: "string \<Rightarrow> int option"
  is_valid_email_address :: "string \<Rightarrow> bool"
  toLowerCase :: "string \<Rightarrow> string"
  trim :: "string \<Rightarrow> string"
  uuid_v4 :: string
  password_hash_generate :: "string \<Rightarrow> string \<Rightarrow> int \<Rightarrow> int \<Rightarrow> string"
  HELP_EMAIL :: string

text \<open>What a call of the database can be rejected with.\<close>

datatype db_error = AlreadyExists | DbFailure string

text \<open>
  One constructor for each \<^verbatim>\<open>throw\<close> of the module, with the values its message
  interpolates, one for a throwing \<^verbatim>\<open>createHmac\<close>, one for a rejected database call,
  and \<open>TypeError p\<close> for the \<^verbatim>\<open>TypeError\<close> the runtime throws when the property
  \<open>p\<close> of \<^verbatim>\<open>undefined\<close> is read.
\<close>

datatype error =
    UndefinedArguments "string option" "string option"
  | HmacError string
  | TypeError string
  | BadlyFormattedCookie
  | NoValidRememberMe
  | AlreadyAttached string
  | CheckEmailNoAccountId
  | EmailAlreadyRegistered string string
  | AccountIdNull
  | Banned "string option" "string option" string
  | Db db_error

text \<open>The message of each \<^verbatim>\<open>Error\<close> the module constructs itself.\<close>

fun error_message :: "error \<Rightarrow> string option" where
  "error_message (UndefinedArguments algorithm salt) =
     Some (''undefined arguments: algorithm='' @ [CHR 0x27] @ opt_string algorithm @ [CHR 0x27]
           @ '' salt='' @ [CHR 0x27] @ opt_string salt @ [CHR 0x27])"
| "error_message BadlyFormattedCookie = Some ''badly formatted remember_me cookie''"
| "error_message NoValidRememberMe = Some ''no valid remember_me token''"
| "error_message (AlreadyAttached strategy) =
     Some (''Your '' @ strategy @ '' account is already attached to another CoCalc account.  First sign into that account and unlink ''
           @ strategy @ '' in account settings if you want to instead associate it with this account.'')"
| "error_message CheckEmailNoAccountId = Some ''check_email: no _account_id''"
| "error_message (EmailAlreadyRegistered email strategy) =
     Some (''There is already an account with email address '' @ email
           @ ''; please sign in using that email account, then link '' @ strategy
           @ '' to it in account settings.'')"
| "error_message AccountIdNull = Some ''locals.account_id is null''"
| "error_message (Banned account_id email_address email) =
     Some (''User (account_id='' @ opt_string account_id @ '', email_address=''
           @ opt_string email_address @ '') is BANNED. If this is a mistake, please contact ''
           @ email @ ''.'')"
| "error_message (HmacError algorithm) = None"
| "error_message (TypeError property) = None"
| "error_message (Db e) = None"

section \<open>Password hashing\<close>

definition HASH_ALGORITHM :: string where "HASH_ALGORITHM = ''sha512''"
definition HASH_ITERATIONS :: int where "HASH_ITERATIONS = 1000"
definition HASH_SALT_LENGTH :: int where "HASH_SALT_LENGTH = 32"

text \<open>\<^verbatim>\<open>iterations || 1\<close>: \<^verbatim>\<open>undefined\<close>, \<^verbatim>\<open>0\<close> and the empty string are falsy.\<close>

definition or_one :: "jsval \<Rightarrow> jsval" where
  "or_one v =
     (case v of
        JUndefined \<Rightarrow> JNum 1
      | JNum n \<Rightarrow> (if n = 0 then JNum 1 else JNum n)
      | JStr s \<Rightarrow> (if s = [] then JNum 1 else JStr s))"

definition js_number :: "env \<Rightarrow> jsval \<Rightarrow> int option" where
  "js_number rt v = (case v of JUndefined \<Rightarrow> None | JNum n \<Rightarrow> Some n | JStr s \<Rightarrow> to_number rt s)"

text \<open>
  The loop of \<^verbatim>\<open>generate_hash\<close>,
  \<^verbatim>\<open>for (let i = 1, end = iterations, asc = 1 <= end; asc ? i <= end : i >= end; asc ? i++ : i--)\<close>,
  from the state \<open>(i, hash)\<close>: it counts up to \<open>end\<close> when \<open>1 \<le> end\<close> and down to
  \<open>end\<close> otherwise.
\<close>

function hmac_loop :: "env \<Rightarrow> string \<Rightarrow> string \<Rightarrow> bool \<Rightarrow> int \<Rightarrow> int \<Rightarrow> string \<Rightarrow> error + string" where
  "hmac_loop rt algorithm salt asc i e hash =
     (if (if asc then i \<le> e else i \<ge> e) then
        (case createHmac rt algorithm salt hash of
           None \<Rightarrow> Inl (HmacError algorithm)
         | Some h \<Rightarrow> hmac_loop rt algorithm salt asc (if asc then i + 1 else i - 1) e h)
      else Inr hash)"
  by pat_completeness auto
termination
  by (relation "measure (\<lambda>(rt, a, s, asc, i, e, h). if asc then nat (e + 1 - i) else nat (i + 1 - e))")
     auto

text \<open>
  \<^verbatim>\<open>generate_hash(algorithm, salt, iterations, password)\<close>. With \<^verbatim>\<open>end\<close> not a number
  both loop conditions are false and the password comes back unhashed.
\<close>

definition generate_hash :: "env \<Rightarrow> string option \<Rightarrow> string option \<Rightarrow> jsval \<Rightarrow> string \<Rightarrow> error + string" where
  "generate_hash rt algorithm salt iterations password =
     (case (algorithm, salt) of
        (Some a, Some s) \<Rightarrow>
          (let iterations1 = or_one iterations in
           case (case js_number rt iterations1 of
                   None \<Rightarrow> Inr password
                 | Some e \<Rightarrow> hmac_loop rt a s (1 \<le> e) 1 e password) of
             Inl err \<Rightarrow> Inl err
           | Inr hash \<Rightarrow> Inr (a @ ''$'' @ s @ ''$'' @ js_string iterations1 @ ''$'' @ hash))
      | _ \<Rightarrow> Inl (UndefinedArguments algorithm salt))"

text \<open>\<^verbatim>\<open>password_hash(password)\<close>.\<close>

definition password_hash :: "env \<Rightarrow> string \<Rightarrow> string" where
  "password_hash rt password =
     password_hash_generate rt password HASH_ALGORITHM HASH_SALT_LENGTH HASH_ITERATIONS"

text \<open>
  The digest as the specification words it: round 1 hashes the raw secret, round
  \<open>i\<close> hashes the output of round \<open>i - 1\<close>; \<open>None\<close> when a round throws.
\<close>

fun spec_digest :: "env \<Rightarrow> string \<Rightarrow> string \<Rightarrow> nat \<Rightarrow> string \<Rightarrow> string option" where
  "spec_digest rt algorithm salt 0 secret = Some secret"
| "spec_digest rt algorithm salt (Suc n) secret =
     (case spec_digest rt algorithm salt n secret of
        None \<Rightarrow> None
      | Some h \<Rightarrow> createHmac rt algorithm salt h)"

section \<open>The remember-me token\<close>

text \<open>
  The two halves of the token format, as \<^verbatim>\<open>handle_new_sign_in\<close> writes it
  (\<^verbatim>\<open>[x[0], x[1], x[2], session_id].join("$")\<close>, with \<^verbatim>\<open>x\<close> the split hash) and as
  \<^verbatim>\<open>check_remember_me_cookie\<close> reads it (\<^verbatim>\<open>value.split("$")\<close>, four fields or an
  error).
\<close>

definition encode_remember_me :: "string list \<Rightarrow> string \<Rightarrow> string" where
  "encode_remember_me x session_id =
     join ''$'' [join_field (nth_opt x 0), join_field (nth_opt x 1), join_field (nth_opt x 2),
                 session_id]"

definition decode_remember_me :: "string \<Rightarrow> error + string list" where
  "decode_remember_me value =
     (let x = split_on (CHR ''$'') value
      in if length x \<noteq> 4 then Inl BadlyFormattedCookie else Inr x)"

section \<open>The database\<close>

datatype api_action = Regenerate | Get

record signed_in_mesg =
  mesg_remember_me :: bool
  mesg_hub :: string
  mesg_account_id :: string
  mesg_first_name :: string
  mesg_last_name :: string

record passport_args =
  pa_account_id :: string
  pa_strategy :: string
  pa_id :: string
  pa_profile :: string
  pa_email_address :: "string option"
  pa_first_name :: string
  pa_last_name :: string

record account_args =
  aa_first_name :: string
  aa_last_name :: string
  aa_email_address :: "string option"
  aa_PassportStrategy :: string
  aa_passport_id :: string
  aa_passport_profile :: string

record log_value =
  lv_account_id :: "string option"
  lv_first_name :: string
  lv_last_name :: string
  lv_email_address :: "string option"
  lv_created_by :: string

record sign_in_args =
  si_ip_address :: string
  si_successful :: bool
  si_remember_me :: bool
  si_email_address :: "string option"
  si_account_id :: "string option"

record server_settings =
  help_email :: "string option"

text \<open>
  The database (\<^verbatim>\<open>this.database\<close>, of type \<^verbatim>\<open>PostgreSQL\<close>), \<^verbatim>\<open>sign_in.record_sign_in\<close>
  and \<^verbatim>\<open>api_key_action\<close> live in files that are not at hand. The module reaches them
  through \<^verbatim>\<open>callback2\<close>, which either yields the result or throws what the call was
  rejected with, so each awaited call is a function of the store \<open>'s\<close> into
  \<open>db_error + result\<close>; a call that writes returns the new store. \<^verbatim>\<open>log\<close> and
  \<^verbatim>\<open>record_sign_in\<close> are not awaited and their outcome is ignored: they only
  change the store. \<open>completion es\<close> is the order in which the \<^verbatim>\<open>account_exists\<close>
  calls issued together for the emails \<open>es\<close> complete, which the module does not
  control. \<open>database_create_account\<close> is the \<^verbatim>\<open>create_account\<close> of the database, which
  the module names and never gets to call.
\<close>

record 's database =
  get_remember_me :: "'s \<Rightarrow> string \<Rightarrow> db_error + signed_in_mesg option"
  passport_exists :: "'s \<Rightarrow> string \<Rightarrow> string \<Rightarrow> db_error + string option"
  create_passport :: "'s \<Rightarrow> passport_args \<Rightarrow> db_error + 's"
  account_exists :: "'s \<Rightarrow> string \<Rightarrow> db_error + string option"
  database_create_account :: "'s \<Rightarrow> account_args \<Rightarrow> db_error + string \<times> 's"
  do_account_creation_actions :: "'s \<Rightarrow> string \<Rightarrow> string \<Rightarrow> db_error + 's"
  log :: "'s \<Rightarrow> log_value \<Rightarrow> 's"
  record_sign_in :: "'s \<Rightarrow> sign_in_args \<Rightarrow> 's"
  api_key_action :: "'s \<Rightarrow> string option \<Rightarrow> api_action \<Rightarrow> db_error + string option \<times> 's"
  is_banned_user :: "'s \<Rightarrow> string option \<Rightarrow> db_error + bool"
  get_server_settings_cached :: "'s \<Rightarrow> db_error + server_settings"
  save_remember_me :: "'s \<Rightarrow> string \<Rightarrow> string \<Rightarrow> signed_in_mesg \<Rightarrow> int \<Rightarrow> db_error + 's"
  completion :: "string list \<Rightarrow> string list"

text \<open>The calls a request issues, in the order it issues them.\<close>

datatype db_call =
    Get_remember_me string
  | Passport_exists string string
  | Create_passport string string string
  | Account_exists string
  | Create_account "string option" string string
  | Do_account_creation_actions string string
  | Log_create_account "string option"
  | Record_sign_in "string option"
  | Api_key_action "string option" api_action
  | Is_banned_user "string option"
  | Get_server_settings_cached
  | Save_remember_me string string

section \<open>The request and the state of a login\<close>

record request =
  cookie :: "string \<Rightarrow> string option"
  ip :: string
  url :: string

text \<open>The options as the route of a strategy hands them to \<^verbatim>\<open>passport_login\<close>.\<close>

record raw_login =
  raw_strategy :: string
  raw_profile :: string
  raw_id :: jsval
  raw_first_name :: "string option"
  raw_last_name :: "string option"
  raw_full_name :: "string option"
  raw_emails :: "jsval list option"
  raw_req :: request
  raw_base_url :: string
  raw_host :: string

text \<open>
  \<^verbatim>\<open>opts\<close> from the line \<^verbatim>\<open>opts.id = `${opts.id}`\<close> on: the names are strings, the
  emails are valid and in lower case, the id is a string.
\<close>

record PassportLogin =
  strategy :: string
  profile :: string
  id_str :: string
  first_name :: string
  last_name :: string
  full_name :: "string option"
  emails :: "string list option"
  req :: request
  base_url :: string
  host :: string

datatype cookie_op = Set_cookie string string int | Delete_cookie string

text \<open>
  \<^verbatim>\<open>PassportLoginLocals\<close>. \<open>cookies\<close> holds what the request has written through
  \<^verbatim>\<open>locals.cookies.set\<close> so far; what \<^verbatim>\<open>cookies.get\<close> reads is \<open>cookie\<close> of the request.
\<close>

record locals =
  account_id :: "string option"
  email_address :: "string option"
  new_account_created :: bool
  has_valid_remember_me :: bool
  target :: string
  cookies :: "cookie_op list"
  remember_me_cookie :: "string option"
  get_api_key :: "string option"
  action :: "api_action option"
  api_key :: "string option"

definition api_key_cookie_name :: "string \<Rightarrow> string" where
  "api_key_cookie_name base = base @ ''get_api_key''"

definition remember_me_cookie_name :: "string \<Rightarrow> bool \<Rightarrow> string" where
  "remember_me_cookie_name base legacy =
     base @ ''remember_me'' @ (if legacy then ''-legacy'' else [])"

text \<open>The locals, the store and the calls issued so far.\<close>

type_synonym 's state = "locals \<times> 's \<times> db_call list"

section \<open>The steps of \<^verbatim>\<open>passport_login\<close>\<close>

text \<open>
  Each step takes the state and returns what it threw, if anything, with the state it
  left behind.
\<close>

definition check_remember_me_cookie ::
    "'s database \<Rightarrow> env \<Rightarrow> 's state \<Rightarrow> error option \<times> 's state" where
  "check_remember_me_cookie db rt st =
     (case st of (l, s, tr) \<Rightarrow>
        (case remember_me_cookie l of
           None \<Rightarrow> (None, l, s, tr)
         | Some v \<Rightarrow>
             if v = [] then (None, l, s, tr)
             else
               (case decode_remember_me v of
                  Inl err \<Rightarrow> (Some err, l, s, tr)
                | Inr x \<Rightarrow>
                    (case generate_hash rt (nth_opt x 0) (nth_opt x 1) (JStr (x ! 2)) (x ! 3) of
                       Inl err \<Rightarrow> (None, l, s, tr)
                     | Inr hash \<Rightarrow>
                         (case get_remember_me db s hash of
                            Inl e \<Rightarrow> (Some (Db e), l, s, tr @ [Get_remember_me hash])
                          | Inr None \<Rightarrow>
                              (Some NoValidRememberMe, l, s, tr @ [Get_remember_me hash])
                          | Inr (Some signed_in) \<Rightarrow>
                              (None,
                               l\<lparr>account_id := Some (mesg_account_id signed_in),
                                 has_valid_remember_me := True\<rparr>,
                               s, tr @ [Get_remember_me hash]))))))"

definition first_email :: "string list option \<Rightarrow> string option" where
  "first_email es = (case es of None \<Rightarrow> None | Some xs \<Rightarrow> nth_opt xs 0)"

definition check_passport_exists ::
    "'s database \<Rightarrow> PassportLogin \<Rightarrow> 's state \<Rightarrow> error option \<times> 's state" where
  "check_passport_exists db opts st =
     (case st of (l, s, tr) \<Rightarrow>
        (let tr1 = tr @ [Passport_exists (strategy opts) (id_str opts)] in
         case passport_exists db s (strategy opts) (id_str opts) of
           Inl e \<Rightarrow> (Some (Db e), l, s, tr1)
         | Inr found \<Rightarrow>
             (case (if \<not> truthy found \<and> has_valid_remember_me l then account_id l else None) of
                Some a \<Rightarrow>
                  (let tr2 = tr1 @ [Create_passport a (strategy opts) (id_str opts)] in
                   case create_passport db s
                          \<lparr>pa_account_id = a, pa_strategy = strategy opts, pa_id = id_str opts,
                           pa_profile = profile opts,
                           pa_email_address = first_email (emails opts),
                           pa_first_name = first_name opts, pa_last_name = last_name opts\<rparr> of
                     Inl e \<Rightarrow> (Some (Db e), l, s, tr2)
                   | Inr s' \<Rightarrow> (None, l, s', tr2))
              | None \<Rightarrow>
                  if has_valid_remember_me l \<and> account_id l \<noteq> found then
                    (Some (AlreadyAttached (strategy opts)), l, s, tr1)
                  else if has_valid_remember_me l then (None, l, s, tr1)
                  else (None, l\<lparr>account_id := found\<rparr>, s, tr1))))"

text \<open>
  One element of \<^verbatim>\<open>check_emails\<close> from its \<^verbatim>\<open>await\<close> on, that is once its
  \<^verbatim>\<open>account_exists\<close> call has completed. (Up to the \<^verbatim>\<open>await\<close> it only tests
  \<^verbatim>\<open>locals.account_id\<close>, which is falsy while \<^verbatim>\<open>map\<close> starts the elements: the guard of
  \<^verbatim>\<open>check_existing_emails\<close> has just tested it.)
\<close>

definition check_email ::
    "'s database \<Rightarrow> env \<Rightarrow> PassportLogin \<Rightarrow> 's \<Rightarrow> locals \<Rightarrow> string \<Rightarrow> error option \<times> locals" where
  "check_email db rt opts s l email =
     (case account_exists db s (toLowerCase rt email) of
        Inl e \<Rightarrow> (Some (Db e), l)
      | Inr found \<Rightarrow>
          if truthy (account_id l) then (None, l)
          else if \<not> truthy found then (Some CheckEmailNoAccountId, l)
          else (Some (EmailAlreadyRegistered (toLowerCase rt email) (strategy opts)),
                l\<lparr>account_id := found, email_address := Some (toLowerCase rt email)\<rparr>))"

text \<open>
  \<^verbatim>\<open>await Promise.all(check_emails)\<close>, over the emails in the order their calls
  complete: it throws what the first element to throw has thrown, and returns when all
  have returned.
\<close>

fun promise_all ::
    "'s database \<Rightarrow> env \<Rightarrow> PassportLogin \<Rightarrow> 's \<Rightarrow> string list \<Rightarrow> locals \<Rightarrow> error option \<times> locals" where
  "promise_all db rt opts s [] l = (None, l)"
| "promise_all db rt opts s (email # rest) l =
     (case check_email db rt opts s l email of
        (Some e, l') \<Rightarrow> (Some e, l')
      | (None, l') \<Rightarrow> promise_all db rt opts s rest l')"

definition check_existing_emails ::
    "'s database \<Rightarrow> env \<Rightarrow> PassportLogin \<Rightarrow> 's state \<Rightarrow> error option \<times> 's state" where
  "check_existing_emails db rt opts st =
     (case st of (l, s, tr) \<Rightarrow>
        (case emails opts of
           None \<Rightarrow> (None, l, s, tr)
         | Some es \<Rightarrow>
             if truthy (account_id l) then (None, l, s, tr)
             else
               (case promise_all db rt opts s (completion db es) l of
                  (err, l') \<Rightarrow>
                    (err, l', s, tr @ map (\<lambda>email. Account_exists (toLowerCase rt email)) es))))"

text \<open>
  \<^verbatim>\<open>create_account(opts, email_address)\<close>, the function of the module, not a method of
  the manager: it does not call \<^verbatim>\<open>this.database\<close> as the steps do, it reads
  \<^verbatim>\<open>opts.database.create_account\<close>. Its one caller hands it the \<^verbatim>\<open>opts\<close> of
  \<^verbatim>\<open>passport_login\<close>, and these have no key \<^verbatim>\<open>database\<close>: the route builds them from
  the strategy, the profile, the request, the response, the base URL, the host and the
  login info, the interface \<^verbatim>\<open>PassportLogin\<close> names no such key, and \<^verbatim>\<open>defaults\<close> keeps
  the keys it lists. So \<^verbatim>\<open>opts.database\<close> is \<^verbatim>\<open>undefined\<close>, and reading its
  \<^verbatim>\<open>create_account\<close> throws a \<^verbatim>\<open>TypeError\<close> before the arguments are built and before
  any call is made, whatever the options, the email address and the store.
\<close>

definition create_account ::
    "PassportLogin \<Rightarrow> string option \<Rightarrow> 's \<Rightarrow> error + string \<times> 's" where
  "create_account opts email s = Inl (TypeError ''create_account'')"

text \<open>
  \<^verbatim>\<open>maybe_create_account\<close>. What \<^verbatim>\<open>create_account\<close> throws leaves the function as it
  is; the lines after the call are those of the source for a call that returns.
\<close>

definition maybe_create_account ::
    "'s database \<Rightarrow> PassportLogin \<Rightarrow> 's state \<Rightarrow> error option \<times> 's state" where
  "maybe_create_account db opts st =
     (case st of (l, s, tr) \<Rightarrow>
        if truthy (account_id l) then (None, l, s, tr)
        else
          (let l1 = (case emails opts of
                       None \<Rightarrow> l
                     | Some es \<Rightarrow> l\<lparr>email_address := nth_opt es 0\<rparr>);
               tr1 = tr @ [Create_account (email_address l1) (strategy opts) (id_str opts)]
           in case create_account opts (email_address l1) s of
                Inl e \<Rightarrow> (Some e, l1, s, tr)
              | Inr (new_id, s1) \<Rightarrow>
                  (let l2 = l1\<lparr>account_id := Some new_id, new_account_created := True\<rparr>;
                       data = \<lparr>lv_account_id = account_id l2, lv_first_name = first_name opts,
                               lv_last_name = last_name opts,
                               lv_email_address = email_address l2,
                               lv_created_by = ip (req opts)\<rparr>
                   in case email_address l2 of
                        None \<Rightarrow>
                          (None, l2, log db s1 data, tr1 @ [Log_create_account (account_id l2)])
                      | Some email \<Rightarrow>
                          (case do_account_creation_actions db s1 email new_id of
                             Inl e \<Rightarrow>
                               (Some (Db e), l2, s1,
                                tr1 @ [Do_account_creation_actions email new_id])
                           | Inr s2 \<Rightarrow>
                               (None, l2, log db s2 data,
                                tr1 @ [Do_account_creation_actions email new_id,
                                       Log_create_account (account_id l2)])))))"

definition maybe_record_sign_in ::
    "'s database \<Rightarrow> PassportLogin \<Rightarrow> 's state \<Rightarrow> error option \<times> 's state" where
  "maybe_record_sign_in db opts st =
     (case st of (l, s, tr) \<Rightarrow>
        if \<not> new_account_created l then
          (None, l,
           record_sign_in db s
             \<lparr>si_ip_address = ip (req opts), si_successful = True,
              si_remember_me = has_valid_remember_me l,
              si_email_address = email_address l, si_account_id = account_id l\<rparr>,
           tr @ [Record_sign_in (account_id l)])
        else (None, l, s, tr))"

definition maybe_provision_api_key ::
    "'s database \<Rightarrow> 's state \<Rightarrow> error option \<times> 's state" where
  "maybe_provision_api_key db st =
     (case st of (l, s, tr) \<Rightarrow>
        if \<not> truthy (get_api_key l) then (None, l, s, tr)
        else
          (let act = (if new_account_created l then Regenerate else Get);
               l1 = l\<lparr>action := Some act\<rparr>;
               tr1 = tr @ [Api_key_action (account_id l1) act]
           in case api_key_action db s (account_id l1) act of
                Inl e \<Rightarrow> (Some (Db e), l1, s, tr1)
              | Inr (key, s1) \<Rightarrow>
                  if \<not> truthy key then
                    (let tr2 = tr1 @ [Api_key_action (account_id l1) Regenerate] in
                     case api_key_action db s1 (account_id l1) Regenerate of
                       Inl e \<Rightarrow> (Some (Db e), l1\<lparr>api_key := key\<rparr>, s1, tr2)
                     | Inr (key2, s2) \<Rightarrow>
                         (None,
                          l1\<lparr>api_key := key2,
                             target := ''https://authenticated?api_key='' @ opt_string key2\<rparr>,
                          s2, tr2))
                  else
                    (None,
                     l1\<lparr>api_key := key,
                        target := ''https://authenticated?api_key='' @ opt_string key\<rparr>,
                     s1, tr1)))"

text \<open>
  \<^verbatim>\<open>is_user_banned(locals.account_id, locals.email_address)\<close>;
  \<^verbatim>\<open>settings.help_email || HELP_EMAIL\<close> takes the constant when the setting is falsy.
\<close>

definition is_user_banned ::
    "'s database \<Rightarrow> env \<Rightarrow> 's state \<Rightarrow> error option \<times> 's state" where
  "is_user_banned db rt st =
     (case st of (l, s, tr) \<Rightarrow>
        (let tr1 = tr @ [Is_banned_user (account_id l)] in
         case is_banned_user db s (account_id l) of
           Inl e \<Rightarrow> (Some (Db e), l, s, tr1)
         | Inr is_banned \<Rightarrow>
             if is_banned then
               (case get_server_settings_cached db s of
                  Inl e \<Rightarrow> (Some (Db e), l, s, tr1 @ [Get_server_settings_cached])
                | Inr settings \<Rightarrow>
                    (Some (Banned (account_id l) (email_address l)
                             (if truthy (help_email settings)
                              then opt_string (help_email settings) else HELP_EMAIL rt)),
                     l, s, tr1 @ [Get_server_settings_cached]))
             else (None, l, s, tr1)))"

definition handle_new_sign_in ::
    "'s database \<Rightarrow> env \<Rightarrow> PassportLogin \<Rightarrow> string \<Rightarrow> 's state \<Rightarrow> error option \<times> 's state" where
  "handle_new_sign_in db rt opts BASE_URL st =
     (case st of (l, s, tr) \<Rightarrow>
        if has_valid_remember_me l then (None, l, s, tr)
        else
          (case account_id l of
             None \<Rightarrow> (Some AccountIdNull, l, s, tr)
           | Some a \<Rightarrow>
               (let signed_in = \<lparr>mesg_remember_me = True, mesg_hub = host opts,
                                 mesg_account_id = a, mesg_first_name = first_name opts,
                                 mesg_last_name = last_name opts\<rparr>;
                    session_id = uuid_v4 rt;
                    hash_session_id = password_hash rt session_id;
                    ttl = (24 * 3600 * 30 :: int);
                    x = split_on (CHR ''$'') hash_session_id;
                    remember_me_value = encode_remember_me x session_id;
                    tr1 = tr @ [Save_remember_me a hash_session_id]
                in case save_remember_me db s a hash_session_id signed_in ttl of
                     Inl e \<Rightarrow> (Some (Db e), l, s, tr1)
                   | Inr s1 \<Rightarrow>
                       (None,
                        l\<lparr>cookies := cookies l @
                             [Set_cookie (remember_me_cookie_name BASE_URL False)
                                remember_me_value (ttl * 1000)]\<rparr>,
                        s1, tr1))))"

section \<open>\<^verbatim>\<open>passport_login\<close>\<close>

text \<open>
  The head of \<^verbatim>\<open>passport_login\<close>: a full name alone is cut at its last space, the
  names default to the empty string, the emails that are valid strings are kept in
  lower case, the id becomes a string. (\<^verbatim>\<open>defaults\<close>, which comes first and only checks
  that the required options are there, is left out: the options of \<open>raw_login\<close> are
  there by their type.)
\<close>

definition derive_names :: "env \<Rightarrow> raw_login \<Rightarrow> string option \<times> string option" where
  "derive_names rt r =
     (case raw_full_name r of
        None \<Rightarrow> (raw_first_name r, raw_last_name r)
      | Some name \<Rightarrow>
          if raw_first_name r = None \<and> raw_last_name r = None then
            (case lastIndexOf (CHR '' '') name of
               None \<Rightarrow> (Some [], Some name)
             | Some i \<Rightarrow> (Some (trim rt (take i name)), Some (trim rt (drop i name))))
          else (raw_first_name r, raw_last_name r))"

fun valid_emails :: "env \<Rightarrow> jsval list \<Rightarrow> string list" where
  "valid_emails rt [] = []"
| "valid_emails rt (JStr x # xs) =
     (if is_valid_email_address rt x then toLowerCase rt x # valid_emails rt xs
      else valid_emails rt xs)"
| "valid_emails rt (v # xs) = valid_emails rt xs"

definition normalize_opts :: "env \<Rightarrow> raw_login \<Rightarrow> PassportLogin" where
  "normalize_opts rt r =
     \<lparr>strategy = raw_strategy r,
      profile = raw_profile r,
      id_str = js_string (raw_id r),
      first_name = (case fst (derive_names rt r) of None \<Rightarrow> [] | Some n \<Rightarrow> n),
      last_name = (case snd (derive_names rt r) of None \<Rightarrow> [] | Some n \<Rightarrow> n),
      full_name = raw_full_name r,
      emails = (case raw_emails r of None \<Rightarrow> None | Some xs \<Rightarrow> Some (valid_emails rt xs)),
      req = raw_req r,
      base_url = raw_base_url r,
      host = raw_host r\<rparr>"

text \<open>The \<^verbatim>\<open>locals\<close> a login starts from, the cookie of the API key deleted if there is one.\<close>

definition initial_locals :: "PassportLogin \<Rightarrow> locals" where
  "initial_locals opts =
     (let BASE_URL = base_url opts;
          key = cookie (req opts) (api_key_cookie_name BASE_URL)
      in \<lparr>account_id = None,
          email_address = None,
          new_account_created = False,
          has_valid_remember_me = False,
          target = BASE_URL @ ''/app#login'',
          cookies = (if truthy key then [Delete_cookie (api_key_cookie_name BASE_URL)] else []),
          remember_me_cookie = cookie (req opts) (remember_me_cookie_name BASE_URL False),
          get_api_key = key,
          action = None,
          api_key = None\<rparr>)"

text \<open>The awaited steps of the \<^verbatim>\<open>try\<close> block, each run unless one before it threw.\<close>

fun run_steps ::
    "('s state \<Rightarrow> error option \<times> 's state) list \<Rightarrow> 's state \<Rightarrow> error option \<times> 's state" where
  "run_steps [] st = (None, st)"
| "run_steps (f # fs) st =
     (case f st of
        (Some e, st') \<Rightarrow> (Some e, st')
      | (None, st') \<Rightarrow> run_steps fs st')"

definition login_steps ::
    "'s database \<Rightarrow> env \<Rightarrow> PassportLogin \<Rightarrow> ('s state \<Rightarrow> error option \<times> 's state) list" where
  "login_steps db rt opts =
     [check_remember_me_cookie db rt,
      check_passport_exists db opts,
      check_existing_emails db rt opts,
      maybe_create_account db opts,
      maybe_record_sign_in db opts,
      maybe_provision_api_key db,
      is_user_banned db rt,
      handle_new_sign_in db rt opts (base_url opts)]"

text \<open>
  What the \<^verbatim>\<open>catch\<close> block sends: \<open>Send_error strategy err\<close> is
  \<^verbatim>\<open>res.send(`Error trying to login using ${opts.strategy} -- ${err}`)\<close>. Every value the
  module throws is an \<^verbatim>\<open>Error\<close> and \<^verbatim>\<open>callback2\<close> rejects with a truthy value only, so
  the redirect of the \<^verbatim>\<open>else\<close> branch is never taken; a \<^verbatim>\<open>try\<close> block that runs to
  its end sends nothing.
\<close>

datatype response = No_response | Send_error string error

record 's result =
  response :: response
  final_locals :: locals
  final_store :: 's
  calls :: "db_call list"

definition passport_login :: "'s database \<Rightarrow> env \<Rightarrow> raw_login \<Rightarrow> 's \<Rightarrow> 's result" where
  "passport_login db rt raw s =
     (let opts = normalize_opts rt raw in
      case run_steps (login_steps db rt opts) (initial_locals opts, s, []) of
        (err, l, s', tr) \<Rightarrow>
          \<lparr>response = (case err of None \<Rightarrow> No_response | Some e \<Rightarrow> Send_error (strategy opts) e),
           final_locals = l,
           final_store = s',
           calls = tr\<rparr>)"

section \<open>A store in memory\<close>

text \<open>
  Modelled from the spec: the files of the database, of \<^verbatim>\<open>record_sign_in\<close> and of
  \<^verbatim>\<open>api_key_action\<close> are missing, so the store below follows the interface the
  specification gives the AccountLinkStore: links unique per \<open>(strategy, externalId)\<close>
  whose creation fails with \<open>AlreadyExists\<close> when the pair is linked, accounts found by
  email, remember-me records found by hash, a ban flag per account, the settings with
  the help email, and an API key per account that \<open>Get\<close> reads and \<open>Regenerate\<close>
  replaces. The concrete runs of the theorems below use it; the theorems about the
  module hold for every database.
\<close>

record mem =
  links :: "((string \<times> string) \<times> string) list"
  accounts :: "(string \<times> string option) list"
  remember :: "(string \<times> signed_in_mesg) list"
  banned :: "string list"
  settings :: server_settings
  api_keys :: "(string \<times> string) list"
  events :: "string list"

definition mem_account_by_email :: "mem \<Rightarrow> string \<Rightarrow> string option" where
  "mem_account_by_email m email =
     map_option fst (find (\<lambda>a. snd a = Some email) (accounts m))"

definition mem_create_passport :: "mem \<Rightarrow> passport_args \<Rightarrow> db_error + mem" where
  "mem_create_passport m a =
     (case map_of (links m) (pa_strategy a, pa_id a) of
        Some other \<Rightarrow> Inl AlreadyExists
      | None \<Rightarrow> Inr (m\<lparr>links := ((pa_strategy a, pa_id a), pa_account_id a) # links m\<rparr>))"

definition mem_create_account :: "mem \<Rightarrow> account_args \<Rightarrow> db_error + string \<times> mem" where
  "mem_create_account m a =
     (case map_of (links m) (aa_PassportStrategy a, aa_passport_id a) of
        Some other \<Rightarrow> Inl AlreadyExists
      | None \<Rightarrow>
          (let new_id = ''account-'' @ show_nat (length (accounts m))
           in Inr (new_id,
                   m\<lparr>accounts := accounts m @ [(new_id, aa_email_address a)],
                     links := ((aa_PassportStrategy a, aa_passport_id a), new_id) # links m\<rparr>)))"

definition mem_api_key_action :: "mem \<Rightarrow> string option \<Rightarrow> api_action \<Rightarrow> db_error + string option \<times> mem" where
  "mem_api_key_action m account act =
     (case account of
        None \<Rightarrow> Inl (DbFailure ''no account'')
      | Some a \<Rightarrow>
          (case act of
             Get \<Rightarrow> Inr (map_of (api_keys m) a, m)
           | Regenerate \<Rightarrow>
               (let key = ''sk-'' @ a @ ''-'' @ show_nat (length (api_keys m))
                in Inr (Some key, m\<lparr>api_keys := (a, key) # api_keys m\<rparr>))))"

definition mem_db :: "mem database" where
  "mem_db =
     \<lparr>get_remember_me = (\<lambda>m hash. Inr (map_of (remember m) hash)),
      passport_exists = (\<lambda>m strategy i. Inr (map_of (links m) (strategy, i))),
      create_passport = mem_create_passport,
      account_exists = (\<lambda>m email. Inr (mem_account_by_email m email)),
      database_create_account = mem_create_account,
      do_account_creation_actions = (\<lambda>m email a. Inr (m\<lparr>events := events m @ [''actions '' @ a]\<rparr>)),
      log = (\<lambda>m v. m\<lparr>events := events m @ [''create_account '' @ opt_string (lv_account_id v)]\<rparr>),
      record_sign_in = (\<lambda>m v. m\<lparr>events := events m @ [''sign_in '' @ opt_string (si_account_id v)]\<rparr>),
      api_key_action = mem_api_key_action,
      is_banned_user = (\<lambda>m a. Inr (case a of None \<Rightarrow> False | Some i \<Rightarrow> i \<in> set (banned m))),
      get_server_settings_cached = (\<lambda>m. Inr (settings m)),
      save_remember_me = (\<lambda>m a hash v ttl. Inr (m\<lparr>remember := (hash, v) # remember m\<rparr>)),
      completion = (\<lambda>es. es)\<rparr>"

definition mem_empty :: mem where
  "mem_empty =
     \<lparr>links = [], accounts = [], remember = [], banned = [],
      settings = \<lparr>help_email = None\<rparr>, api_keys = [], events = []\<rparr>"

text \<open>
  A runtime for the concrete runs: a keyed hash that knows one algorithm and wraps its
  input, decimal numerals, emails with an \<open>@\<close>, ASCII letters and blanks, and a
  password hash library that, to keep its hashes short, hashes in two rounds of that
  keyed hash with the salt \<open>salt\<close> and says so in the hash it returns.
\<close>

definition test_hmac :: "string \<Rightarrow> string \<Rightarrow> string \<Rightarrow> string option" where
  "test_hmac algorithm salt d =
     (if algorithm = ''sha512'' then Some (''h('' @ salt @ '','' @ d @ '')'') else None)"

fun digits_value :: "string \<Rightarrow> nat \<Rightarrow> nat option" where
  "digits_value [] acc = Some acc"
| "digits_value (c # cs) acc =
     (case find (\<lambda>p. fst p = c) (zip ''0123456789'' [0, 1, 2, 3, 4, 5, 6, 7, 8, 9 :: nat]) of
        None \<Rightarrow> None
      | Some p \<Rightarrow> digits_value cs (10 * acc + snd p))"

definition test_to_number :: "string \<Rightarrow> int option" where
  "test_to_number s = (if s = [] then Some 0 else map_option int (digits_value s 0))"

definition test_lower :: "string \<Rightarrow> string" where
  "test_lower s =
     map (\<lambda>c. case map_of (zip ''ABCDEFGHIJKLMNOPQRSTUVWXYZ'' ''abcdefghijklmnopqrstuvwxyz'') c of
                None \<Rightarrow> c | Some d \<Rightarrow> d) s"

definition test_trim :: "string \<Rightarrow> string" where
  "test_trim s = rev (dropWhile (\<lambda>c. c = CHR '' '') (rev (dropWhile (\<lambda>c. c = CHR '' '') s)))"

definition test_env :: env where
  "test_env =
     \<lparr>createHmac = test_hmac,
      to_number = test_to_number,
      is_valid_email_address = (\<lambda>s. CHR ''@'' \<in> set s),
      toLowerCase = test_lower,
      trim = test_trim,
      uuid_v4 = ''0000-session'',
      password_hash_generate =
        (\<lambda>password algorithm saltLength iterations.
           algorithm @ ''$'' @ ''salt'' @ ''$'' @ ''2'' @ ''$''
             @ ''h(salt,h(salt,'' @ password @ ''))''),
      HELP_EMAIL = ''help@example.com''\<rparr>"

text \<open>Requests without a cookie, with a remember-me cookie, with the cookie of an API key.\<close>

definition no_cookies :: request where
  "no_cookies = \<lparr>cookie = (\<lambda>name. None), ip = ''10.0.0.1'', url = ''/auth/github/return''\<rparr>"

definition with_remember_me :: "string \<Rightarrow> request" where
  "with_remember_me v =
     \<lparr>cookie = (\<lambda>name. if name = ''remember_me'' then Some v else None),
      ip = ''10.0.0.1'', url = ''/auth/github/return''\<rparr>"

definition with_api_key :: "string \<Rightarrow> request" where
  "with_api_key v =
     \<lparr>cookie = (\<lambda>name. if name = ''get_api_key'' then Some v else None),
      ip = ''10.0.0.1'', url = ''/auth/github/return''\<rparr>"

text \<open>The assertion of the specification's scenario: github, id 42, one email.\<close>

definition github_42 :: "request \<Rightarrow> raw_login" where
  "github_42 r =
     \<lparr>raw_strategy = ''github'', raw_profile = ''{}'', raw_id = JNum 42,
      raw_first_name = None, raw_last_name = None, raw_full_name = Some ''Ada Lovelace'',
      raw_emails = Some [JStr ''a@x.com''], raw_req = r, raw_base_url = [],
      raw_host = ''127.0.0.1''\<rparr>"

section \<open>The phases of a login\<close>

text \<open>
  The calls sorted by the part of the login that issues them: the calls that resolve the
  account (cookie, link, emails, creation, the record of the sign-in), the calls for the
  API key, and the calls of the ban check and of the new session.
\<close>

fun api_call :: "db_call \<Rightarrow> bool" where
  "api_call (Api_key_action a act) = True"
| "api_call c = False"

fun late_call :: "db_call \<Rightarrow> bool" where
  "late_call (Is_banned_user a) = True"
| "late_call Get_server_settings_cached = True"
| "late_call (Save_remember_me a h) = True"
| "late_call c = False"

definition early_call :: "db_call \<Rightarrow> bool" where
  "early_call c = (\<not> api_call c \<and> \<not> late_call c)"

text \<open>The steps before the API key, and the steps before the ban check.\<close>

definition resolving_steps ::
    "'s database \<Rightarrow> env \<Rightarrow> PassportLogin \<Rightarrow> ('s state \<Rightarrow> error option \<times> 's state) list" where
  "resolving_steps db rt opts = take 5 (login_steps db rt opts)"

definition steps_before_ban ::
    "'s database \<Rightarrow> env \<Rightarrow> PassportLogin \<Rightarrow> ('s state \<Rightarrow> error option \<times> 's state) list" where
  "steps_before_ban db rt opts = take 6 (login_steps db rt opts)"

text \<open>
  A step appends calls of one phase to the calls issued so far; a step leaves the cookies
  written so far, and the cookie of the API key it has read, as they are.
\<close>

definition appends :: "(db_call \<Rightarrow> bool) \<Rightarrow> ('s state \<Rightarrow> error option \<times> 's state) \<Rightarrow> bool" where
  "appends P f =
     (\<forall>st. \<exists>cs. snd (snd (snd (f st))) = snd (snd st) @ cs \<and> list_all P cs)"

definition keeps_cookies :: "('s state \<Rightarrow> error option \<times> 's state) \<Rightarrow> bool" where
  "keeps_cookies f =
     (\<forall>st. cookies (fst (snd (f st))) = cookies (fst st)
         \<and> get_api_key (fst (snd (f st))) = get_api_key (fst st))"

section \<open>Stores and databases of the concrete runs\<close>

text \<open>A store where github's 42 is linked to an account, and the same with the account banned.\<close>

definition store_linked :: mem where
  "store_linked =
     mem_empty\<lparr>links := [((''github'', ''42''), ''account-7'')],
               accounts := [(''account-7'', Some ''a@x.com'')]\<rparr>"

definition store_linked_banned :: mem where
  "store_linked_banned = store_linked\<lparr>banned := [''account-7'']\<rparr>"

text \<open>
  A store with a live remember-me record of another account, under the hash of the
  cookie \<open>sha512$salt$2$secret\<close>.
\<close>

definition session_cookie :: string where
  "session_cookie = ''sha512$salt$2$secret''"

definition session_record :: "string \<times> signed_in_mesg" where
  "session_record =
     (''sha512$salt$2$h(salt,h(salt,secret))'',
      \<lparr>mesg_remember_me = True, mesg_hub = ''127.0.0.1'', mesg_account_id = ''account-9'',
       mesg_first_name = ''Grace'', mesg_last_name = ''Hopper''\<rparr>)"

definition store_session :: mem where
  "store_session =
     mem_empty\<lparr>accounts := [(''account-9'', None)], remember := [session_record]\<rparr>"

definition store_linked_session :: mem where
  "store_linked_session = store_linked\<lparr>remember := [session_record]\<rparr>"

text \<open>
  A database that loses the race for a link: the lookup has found none, and by the time
  of the creation another request has created it.
\<close>

definition race_db :: "mem database" where
  "race_db = mem_db\<lparr>create_passport := (\<lambda>m a. Inl AlreadyExists)\<rparr>"

text \<open>
  The store with the live record where the account of the record is banned, and a
  database whose call for the server settings is rejected.
\<close>

definition store_session_banned :: mem where
  "store_session_banned = store_session\<lparr>banned := [''account-9'']\<rparr>"

definition no_settings_db :: "mem database" where
  "no_settings_db =
     mem_db\<lparr>get_server_settings_cached := (\<lambda>m. Inl (DbFailure ''settings''))\<rparr>"

section \<open>Facts about the helpers\<close>

declare hmac_loop.simps [simp del]
declare show_nat.simps [simp del]

lemma split_on_not_Nil [simp]: "split_on c s \<noteq> []"
  by (induction s) (auto split: list.splits)

lemma split_on_free: "c \<notin> set f \<Longrightarrow> split_on c f = [f]"
  by (induction f) (auto split: list.splits)

lemma split_on_field: "c \<notin> set f \<Longrightarrow> split_on c (f @ c # r) = f # split_on c r"
  by (induction f) (auto split: list.splits)

lemma length_split_on: "length (split_on c s) = Suc (length (filter (\<lambda>x. x = c) s))"
  by (induction s) (auto split: list.splits)

lemma normalize_fields [simp]:
  "strategy (normalize_opts rt raw) = raw_strategy raw"
  "id_str (normalize_opts rt raw) = js_string (raw_id raw)"
  "req (normalize_opts rt raw) = raw_req raw"
  "base_url (normalize_opts rt raw) = raw_base_url raw"
  "host (normalize_opts rt raw) = raw_host raw"
  "profile (normalize_opts rt raw) = raw_profile raw"
  by (simp_all add: normalize_opts_def)

lemma initial_locals_fields [simp]:
  "account_id (initial_locals opts) = None"
  "email_address (initial_locals opts) = None"
  "new_account_created (initial_locals opts) = False"
  "has_valid_remember_me (initial_locals opts) = False"
  "remember_me_cookie (initial_locals opts) =
     cookie (req opts) (remember_me_cookie_name (base_url opts) False)"
  "get_api_key (initial_locals opts) = cookie (req opts) (api_key_cookie_name (base_url opts))"
  by (simp_all add: initial_locals_def Let_def)

section \<open>The credential hasher\<close>

lemma spec_digest_shift:
  "spec_digest rt a s (Suc n) x =
     (case createHmac rt a s x of None \<Rightarrow> None | Some h \<Rightarrow> spec_digest rt a s n h)"
  by (induction n) (auto split: option.splits)

text \<open>Counting up, the loop runs \<open>end + 1 - i\<close> rounds.\<close>

lemma hmac_loop_up:
  "hmac_loop rt a s True i e h =
     (case spec_digest rt a s (nat (e + 1 - i)) h of
        None \<Rightarrow> Inl (HmacError a) | Some d \<Rightarrow> Inr d)"
proof (induction "nat (e + 1 - i)" arbitrary: i h)
  case 0
  then have "\<not> i \<le> e" by simp
  then show ?case using 0 by (simp add: hmac_loop.simps)
next
  case (Suc k)
  then have le: "i \<le> e" and k: "k = nat (e + 1 - (i + 1))" by simp_all
  have n: "nat (e + 1 - i) = Suc k" using Suc by simp
  show ?case
  proof (cases "createHmac rt a s h")
    case None
    then show ?thesis using le
      by (simp add: hmac_loop.simps [of rt a s True i] n spec_digest_shift del: spec_digest.simps)
  next
    case (Some h')
    then show ?thesis using le Suc.hyps(1) [OF k, of h']
      by (simp add: hmac_loop.simps [of rt a s True i] n spec_digest_shift k
          del: spec_digest.simps)
  qed
qed

text \<open>Counting down, it runs \<open>i + 1 - end\<close> rounds.\<close>

lemma hmac_loop_down:
  "hmac_loop rt a s False i e h =
     (case spec_digest rt a s (nat (i + 1 - e)) h of
        None \<Rightarrow> Inl (HmacError a) | Some d \<Rightarrow> Inr d)"
proof (induction "nat (i + 1 - e)" arbitrary: i h)
  case 0
  then have "\<not> i \<ge> e" by simp
  then show ?case using 0 by (simp add: hmac_loop.simps)
next
  case (Suc k)
  then have le: "e \<le> i" and k: "k = nat (i - 1 + 1 - e)" by simp_all
  have n: "nat (i + 1 - e) = Suc k" using Suc by simp
  show ?case
  proof (cases "createHmac rt a s h")
    case None
    then show ?thesis using le
      by (simp add: hmac_loop.simps [of rt a s False i] n spec_digest_shift del: spec_digest.simps)
  next
    case (Some h')
    then show ?thesis using le Suc.hyps(1) [OF k, of h']
      by (simp add: hmac_loop.simps [of rt a s False i] n spec_digest_shift k
          del: spec_digest.simps)
  qed
qed

lemma generate_hash_nonneg:
  assumes "0 \<le> n"
  shows "generate_hash rt (Some a) (Some s) (JNum n) pw =
     (case spec_digest rt a s (nat (max n 1)) pw of
        None \<Rightarrow> Inl (HmacError a)
      | Some d \<Rightarrow> Inr (join ''$'' [a, s, show_int (max n 1), d]))"
proof (cases "n = 0")
  case True
  then show ?thesis
    by (simp add: generate_hash_def or_one_def js_number_def js_string_def hmac_loop_up
        split: option.splits)
next
  case False
  with assms have "1 \<le> n" by simp
  then show ?thesis using False
    by (simp add: generate_hash_def or_one_def js_number_def js_string_def hmac_loop_up max_def
        split: option.splits)
qed

text \<open>
  A negative \<^verbatim>\<open>iterations\<close> is truthy, so it stays, and the loop counts down from 1 to
  it: \<open>2 - iterations\<close> rounds.
\<close>

lemma generate_hash_negative:
  assumes "n < 0"
  shows "generate_hash rt (Some a) (Some s) (JNum n) pw =
     (case spec_digest rt a s (nat (2 - n)) pw of
        None \<Rightarrow> Inl (HmacError a)
      | Some d \<Rightarrow> Inr (join ''$'' [a, s, show_int n, d]))"
  using assms
  by (simp add: generate_hash_def or_one_def js_number_def js_string_def hmac_loop_down
      split: option.splits)

lemma generate_hash_undefined:
  "(\<exists>x y. generate_hash rt algorithm salt iterations pw = Inl (UndefinedArguments x y))
     \<longleftrightarrow> algorithm = None \<or> salt = None"
proof (cases algorithm)
  case None
  then show ?thesis by (simp add: generate_hash_def)
next
  case a: (Some a)
  show ?thesis
  proof (cases salt)
    case None
    then show ?thesis using a by (simp add: generate_hash_def)
  next
    case s: (Some s)
    have "generate_hash rt (Some a) (Some s) iterations pw \<noteq> Inl (UndefinedArguments x y)"
      for x y
    proof (cases "js_number rt (or_one iterations)")
      case None
      then show ?thesis by (simp add: generate_hash_def)
    next
      case (Some e)
      then show ?thesis
        by (cases "1 \<le> e")
           (simp_all add: generate_hash_def hmac_loop_up hmac_loop_down split: option.splits)
    qed
    then show ?thesis using a s by simp
  qed
qed

text \<open>
  C7, as the code has it. With an algorithm and a salt, and \<open>iterations\<close> an integer
  that is not negative, \<open>generate_hash\<close> returns \<open>algorithm$salt$k$digest\<close> with
  \<open>k = max iterations 1\<close> and the digest of \<open>k\<close> rounds, unless a round of the
  runtime's keyed hash throws, which \<open>generate_hash\<close> passes on; \<open>iterations = 0\<close>
  behaves exactly as \<open>1\<close>; and the error for undefined arguments comes exactly when
  the algorithm or the salt is absent.
\<close>

theorem generate_hash_contract:
  "(0 \<le> n \<longrightarrow>
      generate_hash rt (Some algorithm) (Some salt) (JNum n) secret =
        (case spec_digest rt algorithm salt (nat (max n 1)) secret of
           None \<Rightarrow> Inl (HmacError algorithm)
         | Some digest \<Rightarrow> Inr (join ''$'' [algorithm, salt, show_int (max n 1), digest])))
   \<and> generate_hash rt (Some algorithm) (Some salt) (JNum 0) secret =
       generate_hash rt (Some algorithm) (Some salt) (JNum 1) secret
   \<and> ((\<exists>x y. generate_hash rt a s iterations secret = Inl (UndefinedArguments x y))
        \<longleftrightarrow> a = None \<or> s = None)"
proof (intro conjI impI)
  assume "0 \<le> n"
  then show "generate_hash rt (Some algorithm) (Some salt) (JNum n) secret =
        (case spec_digest rt algorithm salt (nat (max n 1)) secret of
           None \<Rightarrow> Inl (HmacError algorithm)
         | Some digest \<Rightarrow> Inr (join ''$'' [algorithm, salt, show_int (max n 1), digest]))"
    by (rule generate_hash_nonneg)
next
  show "generate_hash rt (Some algorithm) (Some salt) (JNum 0) secret =
       generate_hash rt (Some algorithm) (Some salt) (JNum 1) secret"
    by (simp add: generate_hash_nonneg max_def split: option.splits)
next
  show "(\<exists>x y. generate_hash rt a s iterations secret = Inl (UndefinedArguments x y))
        \<longleftrightarrow> a = None \<or> s = None"
    by (rule generate_hash_undefined)
qed

theorem generate_hash_contract_witness:
  "(0 :: int) \<le> 2
   \<and> generate_hash test_env (Some ''sha512'') (Some ''salt'') (JNum 2) ''pw''
       = Inr ''sha512$salt$2$h(salt,h(salt,pw))''
   \<and> generate_hash test_env (Some ''sha512'') (Some ''salt'') (JNum 0) ''pw''
       = generate_hash test_env (Some ''sha512'') (Some ''salt'') (JNum 1) ''pw''
   \<and> (\<exists>x y. generate_hash test_env None (Some ''salt'') (JNum 2) ''pw''
               = Inl (UndefinedArguments x y))"
  using generate_hash_contract [of 2 test_env "''sha512''" "''salt''" "''pw''" None "Some ''salt''" "JNum 2"]
  by (simp add: test_env_def test_hmac_def show_int_def show_nat.simps digit_def
      numeral_2_eq_2)

text \<open>
  The claim of C7 fails at a negative \<open>iterations\<close>: for \<open>-1\<close> the digest is that of
  three rounds and the third field is \<open>-1\<close>, where one round and the behaviour of
  \<open>1\<close> were claimed.
\<close>

theorem generate_hash_negative_counterexample:
  "generate_hash test_env (Some ''sha512'') (Some ''salt'') (JNum (- 1)) ''pw''
     = Inr ''sha512$salt$-1$h(salt,h(salt,h(salt,pw)))''
   \<and> spec_digest test_env ''sha512'' ''salt'' (nat (max (- 1) 1)) ''pw'' = Some ''h(salt,pw)''
   \<and> generate_hash test_env (Some ''sha512'') (Some ''salt'') (JNum (- 1)) ''pw''
       \<noteq> generate_hash test_env (Some ''sha512'') (Some ''salt'') (JNum 1) ''pw''"
  by (simp add: generate_hash_def or_one_def js_number_def js_string_def hmac_loop.simps
      test_env_def test_hmac_def show_int_def show_nat.simps digit_def)

section \<open>The token codec\<close>

lemma decode_encode:
  assumes "CHR ''$'' \<notin> set a" "CHR ''$'' \<notin> set s" "CHR ''$'' \<notin> set i" "CHR ''$'' \<notin> set x"
  shows "decode_remember_me (encode_remember_me [a, s, i, d] x) = Inr [a, s, i, x]"
  using assms
  by (simp add: decode_remember_me_def encode_remember_me_def nth_opt_def join_field_def
      split_on_field split_on_free)

lemma malformed_cookie_is_fatal:
  assumes "cookie (raw_req raw) (remember_me_cookie_name (raw_base_url raw) False) = Some v"
    and "v \<noteq> []" and "length (split_on (CHR ''$'') v) \<noteq> 4"
  shows "response (passport_login db rt raw st) = Send_error (raw_strategy raw) BadlyFormattedCookie"
    and "final_store (passport_login db rt raw st) = st"
    and "calls (passport_login db rt raw st) = []"
  using assms
  by (simp_all add: passport_login_def login_steps_def check_remember_me_cookie_def
      decode_remember_me_def Let_def)

text \<open>
  C8, as the code has it. Four fields none of which holds a \<open>$\<close> come back from the
  token exactly, and a cookie that is not empty and does not split into four fields is
  rejected as badly formatted: the login sends that error and calls the database not
  once.
\<close>

theorem token_round_trip:
  "(CHR ''$'' \<notin> set algorithm \<union> set salt \<union> set iterations \<union> set secret \<longrightarrow>
      decode_remember_me (encode_remember_me [algorithm, salt, iterations, digest] secret)
        = Inr [algorithm, salt, iterations, secret])
   \<and> (cookie (raw_req raw) (remember_me_cookie_name (raw_base_url raw) False) = Some v
        \<and> v \<noteq> [] \<and> length (split_on (CHR ''$'') v) \<noteq> 4 \<longrightarrow>
      decode_remember_me v = Inl BadlyFormattedCookie
      \<and> response (passport_login db rt raw st) = Send_error (raw_strategy raw) BadlyFormattedCookie
      \<and> final_store (passport_login db rt raw st) = st
      \<and> calls (passport_login db rt raw st) = [])"
proof -
  have round_trip:
    "CHR ''$'' \<notin> set algorithm \<union> set salt \<union> set iterations \<union> set secret \<longrightarrow>
      decode_remember_me (encode_remember_me [algorithm, salt, iterations, digest] secret)
        = Inr [algorithm, salt, iterations, secret]"
    by (simp add: decode_encode)
  have malformed:
    "cookie (raw_req raw) (remember_me_cookie_name (raw_base_url raw) False) = Some v
        \<and> v \<noteq> [] \<and> length (split_on (CHR ''$'') v) \<noteq> 4 \<longrightarrow>
      decode_remember_me v = Inl BadlyFormattedCookie
      \<and> response (passport_login db rt raw st) = Send_error (raw_strategy raw) BadlyFormattedCookie
      \<and> final_store (passport_login db rt raw st) = st
      \<and> calls (passport_login db rt raw st) = []"
    by (simp add: malformed_cookie_is_fatal decode_remember_me_def)
  show ?thesis
    by (rule conjI [OF round_trip malformed])
qed

theorem token_round_trip_witness:
  "CHR ''$'' \<notin> set ''sha512'' \<union> set ''salt'' \<union> set ''1000'' \<union> set ''0000-session''
   \<and> decode_remember_me (encode_remember_me [''sha512'', ''salt'', ''1000'', ''digest''] ''0000-session'')
       = Inr [''sha512'', ''salt'', ''1000'', ''0000-session'']
   \<and> length (split_on (CHR ''$'') ''a$b$c'') \<noteq> 4
   \<and> response (passport_login mem_db test_env (github_42 (with_remember_me ''a$b$c'')) mem_empty)
       = Send_error ''github'' BadlyFormattedCookie
   \<and> response (passport_login mem_db test_env (github_42 (with_remember_me ''a$b$c$d$e'')) mem_empty)
       = Send_error ''github'' BadlyFormattedCookie"
  using token_round_trip [of "''sha512''" "''salt''" "''1000''" "''0000-session''" "''digest''"
      "github_42 (with_remember_me ''a$b$c'')" "''a$b$c''" mem_db test_env mem_empty]
    token_round_trip [of "''sha512''" "''salt''" "''1000''" "''0000-session''" "''digest''"
      "github_42 (with_remember_me ''a$b$c$d$e'')" "''a$b$c$d$e''" mem_db test_env mem_empty]
  by (simp add: github_42_def with_remember_me_def remember_me_cookie_name_def)

text \<open>
  The claim of C8 fails for fields that hold the separator, and for the empty cookie:
  a salt \<open>a$b\<close> makes a token of five fields, which is rejected, and an empty cookie,
  which splits into one field, is taken as no cookie at all.
\<close>

theorem token_round_trip_counterexample:
  "decode_remember_me (encode_remember_me [''sha512'', ''a$b'', ''1000'', ''digest''] ''0000-session'')
     = Inl BadlyFormattedCookie
   \<and> length (split_on (CHR ''$'') []) = 1
   \<and> fst (check_remember_me_cookie mem_db test_env
            (initial_locals (normalize_opts test_env (github_42 (with_remember_me []))), mem_empty, []))
       = None"
  by (simp add: decode_remember_me_def encode_remember_me_def nth_opt_def join_field_def
      check_remember_me_cookie_def github_42_def with_remember_me_def
      remember_me_cookie_name_def)

section \<open>The calls of a login, phase by phase\<close>

lemma run_steps_append:
  "run_steps (fs @ gs) st =
     (case run_steps fs st of (Some e, st') \<Rightarrow> (Some e, st') | (None, st') \<Rightarrow> run_steps gs st')"
  by (induction fs arbitrary: st) (auto split: prod.splits option.splits)

lemma appends_run_steps:
  "(\<forall>f\<in>set fs. appends P f) \<Longrightarrow> appends P (run_steps fs)"
proof (induction fs)
  case Nil
  show ?case by (simp add: appends_def)
next
  case (Cons f fs)
  then have f: "appends P f" and fs: "appends P (run_steps fs)" by simp_all
  show ?case unfolding appends_def
  proof
    fix st
    obtain e st1 where r: "f st = (e, st1)" by (cases "f st")
    from f obtain cs where cs: "snd (snd st1) = snd (snd st) @ cs" "list_all P cs"
      using r unfolding appends_def by (metis snd_conv)
    show "\<exists>cs. snd (snd (snd (run_steps (f # fs) st))) = snd (snd st) @ cs \<and> list_all P cs"
    proof (cases e)
      case (Some err)
      then show ?thesis using r cs by auto
    next
      case None
      from fs obtain ds where ds: "snd (snd (snd (run_steps fs st1))) = snd (snd st1) @ ds" "list_all P ds"
        unfolding appends_def by blast
      then show ?thesis using r cs None by auto
    qed
  qed
qed

lemma keeps_run_steps:
  "(\<forall>f\<in>set fs. keeps_cookies f) \<Longrightarrow> keeps_cookies (run_steps fs)"
proof (induction fs)
  case Nil
  show ?case by (simp add: keeps_cookies_def)
next
  case (Cons f fs)
  then have f: "keeps_cookies f" and fs: "keeps_cookies (run_steps fs)" by simp_all
  show ?case unfolding keeps_cookies_def
  proof
    fix st
    obtain e st1 where r: "f st = (e, st1)" by (cases "f st")
    have 1: "cookies (fst st1) = cookies (fst st)" "get_api_key (fst st1) = get_api_key (fst st)"
      using f r unfolding keeps_cookies_def by (metis fst_conv snd_conv)+
    have 2: "cookies (fst (snd (run_steps fs st1))) = cookies (fst st1)"
        "get_api_key (fst (snd (run_steps fs st1))) = get_api_key (fst st1)"
      using fs unfolding keeps_cookies_def by blast+
    show "cookies (fst (snd (run_steps (f # fs) st))) = cookies (fst st) \<and>
          get_api_key (fst (snd (run_steps (f # fs) st))) = get_api_key (fst st)"
      using r 1 2 by (cases e) auto
  qed
qed

lemma promise_all_None: "promise_all db rt opts s es l = (None, l') \<Longrightarrow> l' = l"
  by (induction es arbitrary: l) (auto simp: check_email_def split: sum.splits if_splits prod.splits option.splits)

lemma promise_all_keeps:
  "promise_all db rt opts s es l = (e, l') \<Longrightarrow> cookies l' = cookies l \<and> get_api_key l' = get_api_key l"
  by (induction es arbitrary: l) (auto simp: check_email_def split: sum.splits if_splits prod.splits option.splits)

lemma appends_1: "appends early_call (check_remember_me_cookie db rt)"
  by (auto simp: appends_def check_remember_me_cookie_def early_call_def split: option.splits sum.splits)

lemma appends_2: "appends early_call (check_passport_exists db opts)"
  by (auto simp: appends_def check_passport_exists_def early_call_def Let_def split: option.splits sum.splits)

lemma appends_3: "appends early_call (check_existing_emails db rt opts)"
  by (auto simp: appends_def check_existing_emails_def early_call_def list_all_iff split: option.splits sum.splits prod.splits)

lemma appends_4: "appends early_call (maybe_create_account db opts)"
  by (auto simp: appends_def maybe_create_account_def early_call_def Let_def split: option.splits sum.splits prod.splits)

lemma appends_5: "appends early_call (maybe_record_sign_in db opts)"
  by (auto simp: appends_def maybe_record_sign_in_def early_call_def)

lemma appends_6: "appends api_call (maybe_provision_api_key db)"
  by (auto simp: appends_def maybe_provision_api_key_def Let_def split: option.splits sum.splits prod.splits)

lemma appends_7: "appends late_call (is_user_banned db rt)"
  by (auto simp: appends_def is_user_banned_def Let_def split: option.splits sum.splits prod.splits)

lemma appends_8: "appends late_call (handle_new_sign_in db rt opts b)"
  by (auto simp: appends_def handle_new_sign_in_def Let_def split: option.splits sum.splits prod.splits)

lemma keeps_1: "keeps_cookies (check_remember_me_cookie db rt)"
  by (auto simp: keeps_cookies_def check_remember_me_cookie_def split: option.splits sum.splits)

lemma keeps_2: "keeps_cookies (check_passport_exists db opts)"
  by (auto simp: keeps_cookies_def check_passport_exists_def Let_def split: option.splits sum.splits)

lemma keeps_3: "keeps_cookies (check_existing_emails db rt opts)"
  by (auto simp: keeps_cookies_def check_existing_emails_def dest: promise_all_keeps split: option.splits sum.splits prod.splits)

lemma keeps_4: "keeps_cookies (maybe_create_account db opts)"
  by (auto simp: keeps_cookies_def maybe_create_account_def Let_def split: option.splits sum.splits prod.splits)

lemma keeps_5: "keeps_cookies (maybe_record_sign_in db opts)"
  by (auto simp: keeps_cookies_def maybe_record_sign_in_def)

lemma keeps_6: "keeps_cookies (maybe_provision_api_key db)"
  by (auto simp: keeps_cookies_def maybe_provision_api_key_def Let_def split: option.splits sum.splits prod.splits)

lemma keeps_7: "keeps_cookies (is_user_banned db rt)"
  by (auto simp: keeps_cookies_def is_user_banned_def Let_def split: option.splits sum.splits prod.splits)


lemma appends_resolving: "appends early_call (run_steps (resolving_steps db rt opts))"
  by (rule appends_run_steps)
     (simp add: resolving_steps_def login_steps_def appends_1 appends_2 appends_3 appends_4 appends_5)

lemma appends_late: 
  "appends late_call (run_steps [is_user_banned db rt, handle_new_sign_in db rt opts b])"
  by (rule appends_run_steps) (simp add: appends_7 appends_8)

lemma keeps_resolving: "keeps_cookies (run_steps (resolving_steps db rt opts))"
  by (rule keeps_run_steps)
     (simp add: resolving_steps_def login_steps_def keeps_1 keeps_2 keeps_3 keeps_4 keeps_5)

lemma login_steps_phases:
  "login_steps db rt opts =
     resolving_steps db rt opts
       @ (maybe_provision_api_key db # [is_user_banned db rt, handle_new_sign_in db rt opts (base_url opts)])"
  by (simp add: resolving_steps_def login_steps_def)

lemma api_calls_empty:
  "maybe_provision_api_key db (l, s, tr) = (e, l', s', tr') \<Longrightarrow> (tr' = tr) = (\<not> truthy (get_api_key l))"
  by (auto simp: maybe_provision_api_key_def Let_def split: option.splits sum.splits prod.splits if_splits)

lemma calls_passport_login:
  "calls (passport_login db rt raw s) =
     snd (snd (snd (run_steps (login_steps db rt (normalize_opts rt raw))
                      (initial_locals (normalize_opts rt raw), s, []))))"
  by (simp add: passport_login_def Let_def split: prod.splits)

lemma phases:
  "\<exists>early api late.
      calls (passport_login db rt raw s) = early @ api @ late
      \<and> list_all early_call early \<and> list_all api_call api \<and> list_all late_call late
      \<and> (api \<noteq> [] \<longleftrightarrow>
           truthy (cookie (raw_req raw) (api_key_cookie_name (raw_base_url raw)))
           \<and> fst (run_steps (resolving_steps db rt (normalize_opts rt raw))
                    (initial_locals (normalize_opts rt raw), s, [])) = None)"
proof -
  define opts where "opts = normalize_opts rt raw"
  define st0 where "st0 = (initial_locals opts, s, [] :: db_call list)"
  obtain e5 l5 s5 tr5 where r5: "run_steps (resolving_steps db rt opts) st0 = (e5, l5, s5, tr5)"
    by (cases "run_steps (resolving_steps db rt opts) st0") auto
  from appends_resolving [of db rt opts] r5 have early: "list_all early_call tr5"
    unfolding appends_def st0_def by (metis append_Nil snd_conv)
  from keeps_resolving [of db rt opts] r5
  have key: "get_api_key l5 = cookie (raw_req raw) (api_key_cookie_name (raw_base_url raw))"
    unfolding keeps_cookies_def st0_def opts_def by (metis fst_conv snd_conv initial_locals_fields(6) normalize_fields(3,4))
  have c: "calls (passport_login db rt raw s) = snd (snd (snd (run_steps (login_steps db rt opts) st0)))"
    by (simp add: calls_passport_login opts_def st0_def)
  show ?thesis
  proof (cases e5)
    case (Some err)
    then have "calls (passport_login db rt raw s) = tr5 @ [] @ []"
      using c r5 by (simp add: login_steps_phases run_steps_append)
    then show ?thesis using early Some r5 unfolding opts_def st0_def 
      by (intro exI [of _ tr5] exI [of _ "[]"]) simp
  next
    case None
    obtain e6 l6 s6 tr6 where r6: "maybe_provision_api_key db (l5, s5, tr5) = (e6, l6, s6, tr6)"
      by (cases "maybe_provision_api_key db (l5, s5, tr5)") auto
    from appends_6 [of db] r6 obtain api where api: "tr6 = tr5 @ api" "list_all api_call api"
      unfolding appends_def by (metis snd_conv)
    from api_calls_empty [OF r6] api have ne: "(api \<noteq> []) = truthy (get_api_key l5)" by auto
    obtain e8 l8 s8 tr8 where
      r8: "run_steps [is_user_banned db rt, handle_new_sign_in db rt opts (base_url opts)] (l6, s6, tr6) = (e8, l8, s8, tr8)"
      by (cases "run_steps [is_user_banned db rt, handle_new_sign_in db rt opts (base_url opts)] (l6, s6, tr6)") auto
    from appends_late [of db rt opts "base_url opts"] r8 obtain late where
      late: "tr8 = tr6 @ late" "list_all late_call late"
      unfolding appends_def by (metis snd_conv)
    show ?thesis
    proof (cases e6)
      case (Some err)
      then have "calls (passport_login db rt raw s) = tr5 @ api @ []"
        using c r5 r6 None api by (simp add: login_steps_phases run_steps_append)
      then show ?thesis using early api ne key None r5 unfolding opts_def st0_def
        by (intro exI [of _ tr5] exI [of _ api] exI [of _ "[]"]) simp
    next
      case n6: None
      then have "calls (passport_login db rt raw s) = tr5 @ api @ late"
        using c r5 r6 r8 None api late by (simp add: login_steps_phases run_steps_append)
      then show ?thesis using early api late ne key None r5 unfolding opts_def st0_def
        by (intro exI [of _ tr5] exI [of _ api] exI [of _ late]) simp
    qed
  qed
qed

section \<open>Concrete runs\<close>

lemmas step_defs =
  check_remember_me_cookie_def check_passport_exists_def check_existing_emails_def
  check_email_def maybe_create_account_def create_account_def maybe_record_sign_in_def
  maybe_provision_api_key_def is_user_banned_def handle_new_sign_in_def

lemmas run_defs =
  passport_login_def normalize_opts_def login_steps_def resolving_steps_def
  steps_before_ban_def initial_locals_def Let_def step_defs
  decode_remember_me_def encode_remember_me_def generate_hash_def or_one_def js_number_def
  js_string_def show_int_def show_nat.simps digit_def hmac_loop.simps password_hash_def
  truthy_def opt_string_def nth_opt_def join_field_def first_email_def derive_names_def
  api_key_cookie_name_def remember_me_cookie_name_def HASH_ALGORITHM_def HASH_ITERATIONS_def
  HASH_SALT_LENGTH_def

lemmas test_defs =
  mem_db_def mem_empty_def mem_create_passport_def mem_create_account_def
  mem_api_key_action_def mem_account_by_email_def test_env_def test_hmac_def
  test_to_number_def test_lower_def test_trim_def no_cookies_def with_remember_me_def
  with_api_key_def github_42_def store_linked_def store_linked_banned_def session_cookie_def
  session_record_def store_session_def store_linked_session_def race_db_def
  store_session_banned_def no_settings_db_def

section \<open>The API key\<close>

lemma provision_generates:
  assumes "truthy (get_api_key l)"
    and "api_key_action db st (account_id l) (if new_account_created l then Regenerate else Get) = Inr (k, st1)"
    and "\<not> truthy k"
    and "api_key_action db st1 (account_id l) Regenerate = Inr (k2, st2)"
  shows "maybe_provision_api_key db (l, st, tr) =
           (None,
            l\<lparr>action := Some (if new_account_created l then Regenerate else Get),
              api_key := k2,
              target := ''https://authenticated?api_key='' @ opt_string k2\<rparr>,
            st2,
            tr @ [Api_key_action (account_id l) (if new_account_created l then Regenerate else Get),
                  Api_key_action (account_id l) Regenerate])"
  using assms by (simp add: maybe_provision_api_key_def Let_def)

text \<open>
  C3, as the code has it. The calls of a login come in three blocks: the calls that
  resolve the account, then the calls for the API key, then the calls of the ban check
  and of the new session. The block of the API key is not empty exactly when the request
  carries the cookie of an API key and the steps that resolve the account (cookie, link,
  emails, creation, record of the sign-in) have all passed; what the ban check then says
  plays no part. And when the first call returns no key, a second call regenerates one
  and the step does not throw.
\<close>

theorem api_key_after_resolution_before_ban:
  "(\<exists>early api late.
      calls (passport_login db rt raw s) = early @ api @ late
      \<and> list_all early_call early \<and> list_all api_call api \<and> list_all late_call late
      \<and> (api \<noteq> [] \<longleftrightarrow>
           truthy (cookie (raw_req raw) (api_key_cookie_name (raw_base_url raw)))
           \<and> fst (run_steps (resolving_steps db rt (normalize_opts rt raw))
                    (initial_locals (normalize_opts rt raw), s, [])) = None))
   \<and> (truthy (get_api_key l)
       \<and> api_key_action db st (account_id l) (if new_account_created l then Regenerate else Get)
           = Inr (k, st1)
       \<and> \<not> truthy k
       \<and> api_key_action db st1 (account_id l) Regenerate = Inr (k2, st2)
      \<longrightarrow> maybe_provision_api_key db (l, st, tr) =
           (None,
            l\<lparr>action := Some (if new_account_created l then Regenerate else Get),
              api_key := k2,
              target := ''https://authenticated?api_key='' @ opt_string k2\<rparr>,
            st2,
            tr @ [Api_key_action (account_id l) (if new_account_created l then Regenerate else Get),
                  Api_key_action (account_id l) Regenerate]))"
  using phases [of db rt raw s] provision_generates [of l db st k st1 k2 st2 tr]
  by blast

text \<open>
  The claim of C3 fails for a banned account: the linked account of github's 42 is
  banned, the request carries the cookie of an API key, and the login reads the key,
  generates one and stores it before it asks whether the account is banned and rejects
  it.
\<close>

theorem api_key_for_banned_counterexample:
  "calls (passport_login mem_db test_env (github_42 (with_api_key ''token'')) store_linked_banned)
     = [Passport_exists ''github'' ''42'', Record_sign_in (Some ''account-7''),
        Api_key_action (Some ''account-7'') Get, Api_key_action (Some ''account-7'') Regenerate,
        Is_banned_user (Some ''account-7''), Get_server_settings_cached]
   \<and> response (passport_login mem_db test_env (github_42 (with_api_key ''token'')) store_linked_banned)
       = Send_error ''github'' (Banned (Some ''account-7'') None ''help@example.com'')
   \<and> api_keys store_linked_banned = []
   \<and> api_keys (final_store (passport_login mem_db test_env (github_42 (with_api_key ''token'')) store_linked_banned))
       = [(''account-7'', ''sk-account-7-0'')]"
  by (simp add: run_defs test_defs)

text \<open>
  The same run as an instance of the theorem: its block of API-key calls is not empty,
  and the step that provisions the key does not throw although the account has none.
\<close>

theorem api_key_after_resolution_before_ban_witness:
  "(\<exists>early api late.
      calls (passport_login mem_db test_env (github_42 (with_api_key ''token'')) store_linked_banned)
        = early @ api @ late
      \<and> list_all early_call early \<and> list_all api_call api \<and> list_all late_call late
      \<and> api \<noteq> [])
   \<and> fst (maybe_provision_api_key mem_db
             ((initial_locals (normalize_opts test_env (github_42 (with_api_key ''token''))))
                \<lparr>account_id := Some ''account-7''\<rparr>,
              store_linked_banned, [])) = None"
  using api_key_after_resolution_before_ban
    [of mem_db test_env "github_42 (with_api_key ''token'')" store_linked_banned
        "(initial_locals (normalize_opts test_env (github_42 (with_api_key ''token''))))
            \<lparr>account_id := Some ''account-7''\<rparr>"
        store_linked_banned None store_linked_banned "Some ''sk-account-7-0''"
        "store_linked_banned\<lparr>api_keys := [(''account-7'', ''sk-account-7-0'')]\<rparr>" "[]"]
  by (simp add: run_defs test_defs)

section \<open>The email check and the stale cookie\<close>

text \<open>
  C1 fails on the code. In the scenario of the specification (github, id 42, one email,
  no link, no account with that email, no cookie) the probe of the email throws
  \<open>check_email: no _account_id\<close>: the login sends that error, creates no account and
  sets no cookie.
\<close>

theorem no_match_is_rejected:
  "response (passport_login mem_db test_env (github_42 no_cookies) mem_empty)
     = Send_error ''github'' CheckEmailNoAccountId
   \<and> error_message CheckEmailNoAccountId = Some ''check_email: no _account_id''
   \<and> calls (passport_login mem_db test_env (github_42 no_cookies) mem_empty)
       = [Passport_exists ''github'' ''42'', Account_exists ''a@x.com'']
   \<and> final_store (passport_login mem_db test_env (github_42 no_cookies) mem_empty) = mem_empty
   \<and> cookies (final_locals (passport_login mem_db test_env (github_42 no_cookies) mem_empty)) = []"
  by (simp add: run_defs test_defs)

text \<open>
  C2 fails on the code. A cookie of four fields whose hash has no record in the store
  makes \<open>check_remember_me_cookie\<close> throw \<open>no valid remember_me token\<close>: the login
  sends that error after the one lookup, and neither resolves the link nor checks the
  emails nor creates an account.
\<close>

theorem unresolvable_cookie_is_rejected:
  "decode_remember_me session_cookie = Inr [''sha512'', ''salt'', ''2'', ''secret'']
   \<and> response (passport_login mem_db test_env (github_42 (with_remember_me session_cookie)) mem_empty)
     = Send_error ''github'' NoValidRememberMe
   \<and> calls (passport_login mem_db test_env (github_42 (with_remember_me session_cookie)) mem_empty)
       = [Get_remember_me ''sha512$salt$2$h(salt,h(salt,secret))'']
   \<and> final_store (passport_login mem_db test_env (github_42 (with_remember_me session_cookie)) mem_empty)
       = mem_empty"
  by (simp add: run_defs test_defs)

text \<open>
  The two failures do not depend on the store or on the order of completion: with a
  list of emails that is not empty and no account yet, the first probe to complete
  always throws; and a cookie that decodes and hashes but has no record always throws,
  where a cookie whose hash cannot be computed is passed over.
\<close>

lemma no_match_always_throws:
  assumes "emails opts = Some es" and "completion db es = e # rest" and "\<not> truthy (account_id l)"
  shows "fst (check_existing_emails db rt opts (l, s, tr)) \<noteq> None"
  using assms
  by (auto simp: check_existing_emails_def check_email_def split: sum.splits prod.splits)

lemma unresolvable_cookie_throws:
  assumes "remember_me_cookie l = Some v" and "v \<noteq> []" and "decode_remember_me v = Inr x"
    and "generate_hash rt (nth_opt x 0) (nth_opt x 1) (JStr (x ! 2)) (x ! 3) = Inr h"
    and "get_remember_me db s h = Inr None"
  shows "check_remember_me_cookie db rt (l, s, tr)
           = (Some NoValidRememberMe, l, s, tr @ [Get_remember_me h])"
  using assms by (simp add: check_remember_me_cookie_def)

lemma unhashable_cookie_is_ignored:
  assumes "remember_me_cookie l = Some v" and "v \<noteq> []" and "decode_remember_me v = Inr x"
    and "generate_hash rt (nth_opt x 0) (nth_opt x 1) (JStr (x ! 2)) (x ! 3) = Inl err"
  shows "check_remember_me_cookie db rt (l, s, tr) = (None, l, s, tr)"
  using assms by (simp add: check_remember_me_cookie_def)

section \<open>The link\<close>

lemma check_remember_me_cookie_store:
  "check_remember_me_cookie db rt (l, s, tr) = (e, l', s', tr') \<Longrightarrow>
     s' = s \<and> cookies l' = cookies l \<and> (\<exists>cs. tr' = tr @ cs \<and> list_all (\<lambda>c. \<exists>h. c = Get_remember_me h) cs)"
  by (auto simp: check_remember_me_cookie_def split: option.splits sum.splits if_splits)

text \<open>
  C5. When the cookie check has authenticated the caller as account \<open>B\<close> and the link
  of \<open>(strategy, id)\<close> resolves to another account \<open>A\<close>, the login is rejected with
  the error of an identity attached to another account. The store is as it was (the link
  is not bound anew, no session is saved), the only calls are the lookups, and no cookie
  has been written.
\<close>

theorem identity_conflict_is_rejected:
  assumes "check_remember_me_cookie db rt (initial_locals (normalize_opts rt raw), s, []) = (None, l, s1, tr)"
    and "has_valid_remember_me l" and "account_id l = Some B"
    and "passport_exists db s (raw_strategy raw) (js_string (raw_id raw)) = Inr (Some A)"
    and "A \<noteq> B" and "A \<noteq> []"
  shows "passport_login db rt raw s =
           \<lparr>response = Send_error (raw_strategy raw) (AlreadyAttached (raw_strategy raw)),
            final_locals = l, final_store = s,
            calls = tr @ [Passport_exists (raw_strategy raw) (js_string (raw_id raw))]\<rparr>
         \<and> cookies l = cookies (initial_locals (normalize_opts rt raw))
         \<and> list_all (\<lambda>c. \<exists>h. c = Get_remember_me h) tr"
proof -
  from check_remember_me_cookie_store [OF assms(1)]
  have s1: "s1 = s" and c: "cookies l = cookies (initial_locals (normalize_opts rt raw))"
    and tr: "list_all (\<lambda>c. \<exists>h. c = Get_remember_me h) tr" by auto
  have "check_passport_exists db (normalize_opts rt raw) (l, s, tr) =
          (Some (AlreadyAttached (raw_strategy raw)), l, s,
           tr @ [Passport_exists (raw_strategy raw) (js_string (raw_id raw))])"
    using assms(2-6) by (simp add: check_passport_exists_def Let_def truthy_def)
  then show ?thesis using assms(1) s1 c tr
    by (simp add: passport_login_def login_steps_def Let_def)
qed

text \<open>
  A run of C5: the caller holds a live cookie of account-9, github's 42 is linked to
  account-7.
\<close>

theorem identity_conflict_is_rejected_witness:
  "response (passport_login mem_db test_env (github_42 (with_remember_me session_cookie)) store_linked_session)
     = Send_error ''github'' (AlreadyAttached ''github'')
   \<and> final_store (passport_login mem_db test_env (github_42 (with_remember_me session_cookie)) store_linked_session)
       = store_linked_session
   \<and> calls (passport_login mem_db test_env (github_42 (with_remember_me session_cookie)) store_linked_session)
       = [Get_remember_me ''sha512$salt$2$h(salt,h(salt,secret))'', Passport_exists ''github'' ''42'']
   \<and> cookies (initial_locals (normalize_opts test_env (github_42 (with_remember_me session_cookie)))) = []"
proof -
  let ?raw = "github_42 (with_remember_me session_cookie)"
  let ?l0 = "initial_locals (normalize_opts test_env ?raw)"
  have 1: "check_remember_me_cookie mem_db test_env (?l0, store_linked_session, [])
             = (None, ?l0\<lparr>account_id := Some ''account-9'', has_valid_remember_me := True\<rparr>,
                store_linked_session, [Get_remember_me ''sha512$salt$2$h(salt,h(salt,secret))''])"
    by (simp add: run_defs test_defs)
  have 2: "passport_exists mem_db store_linked_session (raw_strategy ?raw) (js_string (raw_id ?raw))
             = Inr (Some ''account-7'')"
    by (simp add: run_defs test_defs)
  show ?thesis
    using identity_conflict_is_rejected [OF 1 _ _ 2, of "''account-9''"]
    by (simp add: run_defs test_defs)
qed

text \<open>
  C4, as the code has it. When the caller is authenticated, the lookup finds no link and
  the creation of the link is rejected with \<open>AlreadyExists\<close>, the login does not look
  the link up again: it ends with that error, sent to the caller, after exactly one
  lookup and one attempt to create.
\<close>

theorem link_race_is_not_recovered:
  assumes "check_remember_me_cookie db rt (initial_locals (normalize_opts rt raw), s, []) = (None, l, s1, tr)"
    and "has_valid_remember_me l" and "account_id l = Some B"
    and "passport_exists db s (raw_strategy raw) (js_string (raw_id raw)) = Inr found"
    and "\<not> truthy found"
    and "create_passport db s
           \<lparr>pa_account_id = B, pa_strategy = raw_strategy raw, pa_id = js_string (raw_id raw),
            pa_profile = raw_profile raw,
            pa_email_address = first_email (emails (normalize_opts rt raw)),
            pa_first_name = first_name (normalize_opts rt raw),
            pa_last_name = last_name (normalize_opts rt raw)\<rparr> = Inl AlreadyExists"
  shows "passport_login db rt raw s =
           \<lparr>response = Send_error (raw_strategy raw) (Db AlreadyExists),
            final_locals = l, final_store = s,
            calls = tr @ [Passport_exists (raw_strategy raw) (js_string (raw_id raw)),
                          Create_passport B (raw_strategy raw) (js_string (raw_id raw))]\<rparr>"
proof -
  from check_remember_me_cookie_store [OF assms(1)] have s1: "s1 = s" by simp
  have "check_passport_exists db (normalize_opts rt raw) (l, s, tr) =
          (Some (Db AlreadyExists), l, s,
           tr @ [Passport_exists (raw_strategy raw) (js_string (raw_id raw)),
                 Create_passport B (raw_strategy raw) (js_string (raw_id raw))])"
    using assms(2-6) by (simp add: check_passport_exists_def Let_def)
  then show ?thesis using assms(1) s1
    by (simp add: passport_login_def login_steps_def Let_def)
qed

text \<open>
  The claim of C4 fails in the race it describes: the lookup finds no link, the creation
  is rejected with \<open>AlreadyExists\<close>, and the caller gets the error.
\<close>

theorem link_race_counterexample:
  "passport_exists race_db store_session ''github'' ''42'' = Inr None
   \<and> create_passport race_db store_session
        \<lparr>pa_account_id = ''account-9'', pa_strategy = ''github'', pa_id = ''42'',
         pa_profile = ''{}'', pa_email_address = Some ''a@x.com'',
         pa_first_name = ''Ada'', pa_last_name = ''Lovelace''\<rparr> = Inl AlreadyExists
   \<and> response (passport_login race_db test_env (github_42 (with_remember_me session_cookie)) store_session)
       = Send_error ''github'' (Db AlreadyExists)
   \<and> calls (passport_login race_db test_env (github_42 (with_remember_me session_cookie)) store_session)
       = [Get_remember_me ''sha512$salt$2$h(salt,h(salt,secret))'',
          Passport_exists ''github'' ''42'', Create_passport ''account-9'' ''github'' ''42'']"
  by (simp add: run_defs test_defs)

text \<open>
  The same run as an instance of the theorem.
\<close>

theorem link_race_is_not_recovered_witness:
  "passport_login race_db test_env (github_42 (with_remember_me session_cookie)) store_session =
     \<lparr>response = Send_error ''github'' (Db AlreadyExists),
      final_locals = (initial_locals (normalize_opts test_env (github_42 (with_remember_me session_cookie))))
                       \<lparr>account_id := Some ''account-9'', has_valid_remember_me := True\<rparr>,
      final_store = store_session,
      calls = [Get_remember_me ''sha512$salt$2$h(salt,h(salt,secret))'',
               Passport_exists ''github'' ''42'', Create_passport ''account-9'' ''github'' ''42'']\<rparr>"
proof -
  let ?raw = "github_42 (with_remember_me session_cookie)"
  let ?l0 = "initial_locals (normalize_opts test_env ?raw)"
  have 1: "check_remember_me_cookie race_db test_env (?l0, store_session, [])
             = (None, ?l0\<lparr>account_id := Some ''account-9'', has_valid_remember_me := True\<rparr>,
                store_session, [Get_remember_me ''sha512$salt$2$h(salt,h(salt,secret))''])"
    by (simp add: run_defs test_defs)
  have 2: "passport_exists race_db store_session (raw_strategy ?raw) (js_string (raw_id ?raw))
             = Inr None"
    by (simp add: run_defs test_defs)
  show ?thesis
    using link_race_is_not_recovered [OF 1 _ _ 2, of "''account-9''"]
    by (simp add: run_defs test_defs)
qed

section \<open>The ban check\<close>

lemma keeps_before_ban: "keeps_cookies (run_steps (steps_before_ban db rt opts))"
  by (rule keeps_run_steps)
     (simp add: steps_before_ban_def login_steps_def keeps_1 keeps_2 keeps_3 keeps_4 keeps_5 keeps_6)

lemma not_late: "early_call c \<or> api_call c \<Longrightarrow> \<not> late_call c"
  by (cases c) (auto simp: early_call_def)

lemma appends_before_ban:
  "appends (\<lambda>c. \<not> late_call c) (run_steps (steps_before_ban db rt opts))"
proof -
  have "appends (\<lambda>c. \<not> late_call c) f" if "appends early_call f \<or> appends api_call f" for f :: "'a state \<Rightarrow> error option \<times> 'a state"
    using that not_late unfolding appends_def list_all_iff by metis
  then show ?thesis
    by (intro appends_run_steps)
       (auto simp: steps_before_ban_def login_steps_def appends_1 appends_2 appends_3 appends_4 appends_5 appends_6)
qed

lemma login_steps_ban:
  "login_steps db rt opts =
     steps_before_ban db rt opts @ [is_user_banned db rt, handle_new_sign_in db rt opts (base_url opts)]"
  by (simp add: steps_before_ban_def login_steps_def)

lemma is_user_banned_when_banned:
  assumes "is_banned_user db s (account_id l) = Inr True"
  shows "is_user_banned db rt (l, s, tr) =
           (Some (case get_server_settings_cached db s of
                    Inl e \<Rightarrow> Db e
                  | Inr st \<Rightarrow>
                      Banned (account_id l) (email_address l)
                        (if truthy (help_email st) then opt_string (help_email st)
                         else HELP_EMAIL rt)),
            l, s, tr @ [Is_banned_user (account_id l), Get_server_settings_cached])"
  using assms by (simp add: is_user_banned_def Let_def split: sum.splits)

text \<open>
  C6, as the code has it. When the steps before the ban check have passed, so that the
  login has resolved to an account, and the account is banned, the login is rejected:
  with the error of a banned user, whose message ends with the help email of the
  settings, or with the constant \<open>HELP_EMAIL\<close> when the settings have none; or, when
  the call for the settings is itself rejected, with what it was rejected with. Either
  way the store is the one the earlier steps left (nothing is taken back), no
  remember-me record has been saved and no cookie written.
\<close>

theorem ban_supersedes_success:
  assumes "run_steps (steps_before_ban db rt (normalize_opts rt raw))
             (initial_locals (normalize_opts rt raw), s, []) = (None, l, s', tr)"
    and "is_banned_user db s' (account_id l) = Inr True"
  shows "passport_login db rt raw s =
           \<lparr>response = Send_error (raw_strategy raw)
                         (case get_server_settings_cached db s' of
                            Inl e \<Rightarrow> Db e
                          | Inr st \<Rightarrow>
                              Banned (account_id l) (email_address l)
                                (if truthy (help_email st) then opt_string (help_email st)
                                 else HELP_EMAIL rt)),
            final_locals = l, final_store = s',
            calls = tr @ [Is_banned_user (account_id l), Get_server_settings_cached]\<rparr>
         \<and> cookies l = cookies (initial_locals (normalize_opts rt raw))
         \<and> list_all (\<lambda>c. \<not> late_call c) tr
         \<and> error_message (Banned (account_id l) (email_address l) email)
             = Some (''User (account_id='' @ opt_string (account_id l) @ '', email_address=''
                     @ opt_string (email_address l)
                     @ '') is BANNED. If this is a mistake, please contact ''
                     @ email @ ''.'')"
proof -
  have c: "cookies l = cookies (initial_locals (normalize_opts rt raw))"
    using keeps_before_ban [of db rt "normalize_opts rt raw"] assms(1)
    unfolding keeps_cookies_def by (metis fst_conv snd_conv)
  have t: "list_all (\<lambda>c. \<not> late_call c) tr"
    using appends_before_ban [of db rt "normalize_opts rt raw"] assms(1)
    unfolding appends_def by (metis append_Nil snd_conv)
  note b = is_user_banned_when_banned [OF assms(2), of rt tr]
  have "passport_login db rt raw s =
           \<lparr>response = Send_error (raw_strategy raw)
                         (case get_server_settings_cached db s' of
                            Inl e \<Rightarrow> Db e
                          | Inr st \<Rightarrow>
                              Banned (account_id l) (email_address l)
                                (if truthy (help_email st) then opt_string (help_email st)
                                 else HELP_EMAIL rt)),
            final_locals = l, final_store = s',
            calls = tr @ [Is_banned_user (account_id l), Get_server_settings_cached]\<rparr>"
    using assms(1) b by (simp add: passport_login_def login_steps_ban run_steps_append Let_def)
  then show ?thesis using c t by simp
qed

text \<open>
  A run of C6: a caller with a live cookie of account-9, which is banned, and an identity
  not seen before. The link is created for the account and stays in the store, the login
  is rejected, no new record is saved and no cookie written; the settings have no help
  email.
\<close>

theorem ban_supersedes_success_witness:
  "response (passport_login mem_db test_env (github_42 (with_remember_me session_cookie))
               store_session_banned)
     = Send_error ''github'' (Banned (Some ''account-9'') None ''help@example.com'')
   \<and> links store_session_banned = []
   \<and> links (final_store (passport_login mem_db test_env
                (github_42 (with_remember_me session_cookie)) store_session_banned))
       = [((''github'', ''42''), ''account-9'')]
   \<and> remember (final_store (passport_login mem_db test_env
                (github_42 (with_remember_me session_cookie)) store_session_banned))
       = [session_record]
   \<and> cookies (final_locals (passport_login mem_db test_env
                (github_42 (with_remember_me session_cookie)) store_session_banned))
       = []
   \<and> error_message (Banned (Some ''account-9'') None ''help@example.com'')
       = Some ''User (account_id=account-9, email_address=undefined) is BANNED. If this is a mistake, please contact help@example.com.''"
proof -
  let ?raw = "github_42 (with_remember_me session_cookie)"
  let ?x = "run_steps (steps_before_ban mem_db test_env (normalize_opts test_env ?raw))
              (initial_locals (normalize_opts test_env ?raw), store_session_banned, [])"
  have "fst ?x = None" by (simp add: run_defs test_defs)
  then have 1: "?x = (None, fst (snd ?x), fst (snd (snd ?x)), snd (snd (snd ?x)))"
    by (metis prod.collapse)
  have 2: "is_banned_user mem_db (fst (snd (snd ?x))) (account_id (fst (snd ?x))) = Inr True"
    by (simp add: run_defs test_defs)
  show ?thesis
    using ban_supersedes_success [OF 1 2, of "''help@example.com''"]
    by (simp add: run_defs test_defs)
qed

text \<open>
  The claim of C6 fails when the call for the settings is rejected: the linked account
  of github's 42 is banned, and the login is rejected with what the call was rejected
  with, not with the error of a banned user.
\<close>

theorem ban_without_settings_counterexample:
  "is_banned_user no_settings_db store_linked_banned (Some ''account-7'') = Inr True
   \<and> response (passport_login no_settings_db test_env (github_42 no_cookies) store_linked_banned)
       = Send_error ''github'' (Db (DbFailure ''settings''))
   \<and> cookies (final_locals (passport_login no_settings_db test_env (github_42 no_cookies)
                               store_linked_banned))
       = []"
  by (simp add: run_defs test_defs)

section \<open>Logging in again\<close>

lemma tail_steps:
  assumes "run_steps [maybe_provision_api_key db, is_user_banned db rt, handle_new_sign_in db rt opts b]
             (l, s, tr) = (e, l', s', tr')"
  shows "account_id l' = account_id l \<and> new_account_created l' = new_account_created l
         \<and> (\<exists>cs. tr' = tr @ cs \<and> list_all (\<lambda>c. api_call c \<or> late_call c) cs)
         \<and> (e = None \<or> (\<exists>d. e = Some (Db d))
              \<or> (\<exists>m em. e = Some (Banned (account_id l) m em))
              \<or> (e = Some AccountIdNull \<and> account_id l = None))"
proof -
  obtain e6 l6 s6 tr6 where r6: "maybe_provision_api_key db (l, s, tr) = (e6, l6, s6, tr6)"
    by (cases "maybe_provision_api_key db (l, s, tr)") auto
  then have p6: "account_id l6 = account_id l \<and> new_account_created l6 = new_account_created l
      \<and> (\<exists>cs. tr6 = tr @ cs \<and> list_all (\<lambda>c. api_call c \<or> late_call c) cs)
      \<and> (e6 = None \<or> (\<exists>d. e6 = Some (Db d)))"
    by (auto simp: maybe_provision_api_key_def Let_def split: if_splits sum.splits prod.splits)
  obtain e7 l7 s7 tr7 where r7: "is_user_banned db rt (l6, s6, tr6) = (e7, l7, s7, tr7)"
    by (cases "is_user_banned db rt (l6, s6, tr6)") auto
  then have p7: "l7 = l6 \<and> (\<exists>cs. tr7 = tr6 @ cs \<and> list_all (\<lambda>c. api_call c \<or> late_call c) cs)
      \<and> (e7 = None \<or> (\<exists>d. e7 = Some (Db d)) \<or> (\<exists>m em. e7 = Some (Banned (account_id l6) m em)))"
    by (auto simp: is_user_banned_def Let_def split: if_splits sum.splits prod.splits)
  obtain e8 l8 s8 tr8 where r8: "handle_new_sign_in db rt opts b (l7, s7, tr7) = (e8, l8, s8, tr8)"
    by (cases "handle_new_sign_in db rt opts b (l7, s7, tr7)") auto
  then have p8: "account_id l8 = account_id l7 \<and> new_account_created l8 = new_account_created l7
      \<and> (\<exists>cs. tr8 = tr7 @ cs \<and> list_all (\<lambda>c. api_call c \<or> late_call c) cs)
      \<and> (e8 = None \<or> (\<exists>d. e8 = Some (Db d)) \<or> (e8 = Some AccountIdNull \<and> account_id l7 = None))"
    by (auto simp: handle_new_sign_in_def Let_def split: if_splits sum.splits prod.splits option.splits)
  show ?thesis
  proof (cases e6)
    case (Some a)
    then show ?thesis using assms r6 p6 by auto
  next
    case n6: None
    show ?thesis
    proof (cases e7)
      case (Some a)
      then show ?thesis using assms r6 r7 n6 p6 p7 by auto
    next
      case n7: None
      then have "(e, l', s', tr') = (e8, l8, s8, tr8)" using assms r6 r7 r8 n6 by (auto split: option.splits)
      then show ?thesis using p6 p7 p8 by auto
    qed
  qed
qed

lemma login_steps_tail:
  "login_steps db rt opts =
     resolving_steps db rt opts
       @ [maybe_provision_api_key db, is_user_banned db rt, handle_new_sign_in db rt opts (base_url opts)]"
  by (simp add: resolving_steps_def login_steps_def)

lemma relogin_resolution:
  assumes "\<not> truthy (cookie (raw_req raw) (remember_me_cookie_name (raw_base_url raw) False))"
    and "passport_exists db s (raw_strategy raw) (js_string (raw_id raw)) = Inr (Some A)"
    and "A \<noteq> []"
  shows "run_steps (resolving_steps db rt (normalize_opts rt raw))
           (initial_locals (normalize_opts rt raw), s, []) =
         (None, (initial_locals (normalize_opts rt raw))\<lparr>account_id := Some A\<rparr>,
          record_sign_in db s
            \<lparr>si_ip_address = ip (raw_req raw), si_successful = True, si_remember_me = False,
             si_email_address = None, si_account_id = Some A\<rparr>,
          [Passport_exists (raw_strategy raw) (js_string (raw_id raw)), Record_sign_in (Some A)])"
proof -
  let ?opts = "normalize_opts rt raw"
  let ?l0 = "initial_locals ?opts"
  have 1: "check_remember_me_cookie db rt (?l0, s, []) = (None, ?l0, s, [])"
    using assms(1) by (auto simp: check_remember_me_cookie_def truthy_def split: option.splits)
  have 2: "check_passport_exists db ?opts (?l0, s, []) =
             (None, ?l0\<lparr>account_id := Some A\<rparr>, s,
              [Passport_exists (raw_strategy raw) (js_string (raw_id raw))])"
    using assms(2,3) by (simp add: check_passport_exists_def Let_def truthy_def)
  have 3: "check_existing_emails db rt ?opts (?l0\<lparr>account_id := Some A\<rparr>, s, tr) =
             (None, ?l0\<lparr>account_id := Some A\<rparr>, s, tr)" for tr
    using assms(3) by (simp add: check_existing_emails_def truthy_def split: option.splits)
  have 4: "maybe_create_account db ?opts (?l0\<lparr>account_id := Some A\<rparr>, s, tr) =
             (None, ?l0\<lparr>account_id := Some A\<rparr>, s, tr)" for tr
    using assms(3) by (simp add: maybe_create_account_def truthy_def)
  have 5: "maybe_record_sign_in db ?opts (?l0\<lparr>account_id := Some A\<rparr>, s, tr) =
             (None, ?l0\<lparr>account_id := Some A\<rparr>,
              record_sign_in db s
                \<lparr>si_ip_address = ip (raw_req raw), si_successful = True, si_remember_me = False,
                 si_email_address = None, si_account_id = Some A\<rparr>,
              tr @ [Record_sign_in (Some A)])" for tr
    by (simp add: maybe_record_sign_in_def)
  show ?thesis
    by (simp add: resolving_steps_def login_steps_def 1 2 3 4 5)
qed

text \<open>
  C9, as the code has it. When \<open>(strategy, id)\<close> is linked to account \<open>A\<close> and the
  request has no remember-me cookie, the login resolves to \<open>A\<close>: it creates no
  account and no link and probes no email, its calls being the lookup, the record of the
  sign-in, and then only calls for the API key, the ban check and the session. It ends
  signed in, or rejected because \<open>A\<close> is banned, or rejected because the database
  rejected a call. When the API-key step passes, the account is not banned and the
  session is saved, it ends signed in as \<open>A\<close> with a new remember-me cookie.
\<close>

theorem relogin_signs_in_linked_account:
  assumes "\<not> truthy (cookie (raw_req raw) (remember_me_cookie_name (raw_base_url raw) False))"
    and "passport_exists db s (raw_strategy raw) (js_string (raw_id raw)) = Inr (Some A)"
    and "A \<noteq> []"
  shows "account_id (final_locals (passport_login db rt raw s)) = Some A
    \<and> \<not> new_account_created (final_locals (passport_login db rt raw s))
    \<and> (\<exists>cs. calls (passport_login db rt raw s) =
              [Passport_exists (raw_strategy raw) (js_string (raw_id raw)), Record_sign_in (Some A)] @ cs
            \<and> list_all (\<lambda>c. api_call c \<or> late_call c) cs)
    \<and> (response (passport_login db rt raw s) = No_response
         \<or> (\<exists>m em. response (passport_login db rt raw s)
                      = Send_error (raw_strategy raw) (Banned (Some A) m em))
         \<or> (\<exists>d. response (passport_login db rt raw s) = Send_error (raw_strategy raw) (Db d)))
    \<and> (\<forall>l6 s6 tr6 s7.
          maybe_provision_api_key db
            ((initial_locals (normalize_opts rt raw))\<lparr>account_id := Some A\<rparr>,
             record_sign_in db s
               \<lparr>si_ip_address = ip (raw_req raw), si_successful = True, si_remember_me = False,
                si_email_address = None, si_account_id = Some A\<rparr>,
             [Passport_exists (raw_strategy raw) (js_string (raw_id raw)), Record_sign_in (Some A)])
            = (None, l6, s6, tr6)
          \<and> is_banned_user db s6 (Some A) = Inr False
          \<and> save_remember_me db s6 A (password_hash rt (uuid_v4 rt))
               \<lparr>mesg_remember_me = True, mesg_hub = raw_host raw, mesg_account_id = A,
                mesg_first_name = first_name (normalize_opts rt raw),
                mesg_last_name = last_name (normalize_opts rt raw)\<rparr>
               2592000 = Inr s7
          \<longrightarrow> passport_login db rt raw s =
                \<lparr>response = No_response,
                 final_locals =
                   l6\<lparr>cookies := cookies l6 @
                        [Set_cookie (remember_me_cookie_name (raw_base_url raw) False)
                           (encode_remember_me (split_on (CHR ''$'') (password_hash rt (uuid_v4 rt)))
                              (uuid_v4 rt))
                           2592000000]\<rparr>,
                 final_store = s7,
                 calls = tr6 @ [Is_banned_user (Some A),
                                Save_remember_me A (password_hash rt (uuid_v4 rt))]\<rparr>)"
proof -
  let ?opts = "normalize_opts rt raw"
  let ?l5 = "(initial_locals ?opts)\<lparr>account_id := Some A\<rparr>"
  let ?s5 = "record_sign_in db s
               \<lparr>si_ip_address = ip (raw_req raw), si_successful = True, si_remember_me = False,
                si_email_address = None, si_account_id = Some A\<rparr>"
  let ?tr5 = "[Passport_exists (raw_strategy raw) (js_string (raw_id raw)), Record_sign_in (Some A)]"
  let ?tail = "[maybe_provision_api_key db, is_user_banned db rt,
                handle_new_sign_in db rt ?opts (base_url ?opts)]"
  note r5 = relogin_resolution [OF assms, of rt]
  obtain e l' s' tr' where t: "run_steps ?tail (?l5, ?s5, ?tr5) = (e, l', s', tr')"
    by (cases "run_steps ?tail (?l5, ?s5, ?tr5)") auto
  have pl: "passport_login db rt raw s =
          \<lparr>response = (case e of None \<Rightarrow> No_response | Some x \<Rightarrow> Send_error (raw_strategy raw) x),
           final_locals = l', final_store = s', calls = tr'\<rparr>"
    using r5 t by (simp add: passport_login_def login_steps_tail run_steps_append Let_def
        cong: option.case_cong)
  from tail_steps [OF t]
  have a: "account_id l' = Some A" and n: "\<not> new_account_created l'"
    and c: "\<exists>cs. tr' = ?tr5 @ cs \<and> list_all (\<lambda>c. api_call c \<or> late_call c) cs"
    and e: "e = None \<or> (\<exists>d. e = Some (Db d)) \<or> (\<exists>m em. e = Some (Banned (Some A) m em))"
    by auto
  have resp: "response (passport_login db rt raw s) = No_response
         \<or> (\<exists>m em. response (passport_login db rt raw s)
                      = Send_error (raw_strategy raw) (Banned (Some A) m em))
         \<or> (\<exists>d. response (passport_login db rt raw s) = Send_error (raw_strategy raw) (Db d))"
    using e pl by auto
  have ok: "passport_login db rt raw s =
                \<lparr>response = No_response,
                 final_locals =
                   l6\<lparr>cookies := cookies l6 @
                        [Set_cookie (remember_me_cookie_name (raw_base_url raw) False)
                           (encode_remember_me (split_on (CHR ''$'') (password_hash rt (uuid_v4 rt)))
                              (uuid_v4 rt))
                           2592000000]\<rparr>,
                 final_store = s7,
                 calls = tr6 @ [Is_banned_user (Some A),
                                Save_remember_me A (password_hash rt (uuid_v4 rt))]\<rparr>"
    if h: "maybe_provision_api_key db (?l5, ?s5, ?tr5) = (None, l6, s6, tr6)"
      "is_banned_user db s6 (Some A) = Inr False"
      "save_remember_me db s6 A (password_hash rt (uuid_v4 rt))
               \<lparr>mesg_remember_me = True, mesg_hub = raw_host raw, mesg_account_id = A,
                mesg_first_name = first_name (normalize_opts rt raw),
                mesg_last_name = last_name (normalize_opts rt raw)\<rparr>
               2592000 = Inr s7"
    for l6 s6 tr6 s7
  proof -
    from keeps_6 [of db] h(1) have "account_id l6 = Some A \<and> has_valid_remember_me l6 = False"
      by (auto simp: maybe_provision_api_key_def Let_def split: if_splits sum.splits prod.splits)
    then have a6: "account_id l6 = Some A" and v6: "\<not> has_valid_remember_me l6" by simp_all
    have 7: "is_user_banned db rt (l6, s6, tr6) = (None, l6, s6, tr6 @ [Is_banned_user (Some A)])"
      using h(2) a6 by (simp add: is_user_banned_def Let_def)
    have 8: "handle_new_sign_in db rt ?opts (base_url ?opts) (l6, s6, tr6 @ [Is_banned_user (Some A)]) =
               (None,
                l6\<lparr>cookies := cookies l6 @
                        [Set_cookie (remember_me_cookie_name (raw_base_url raw) False)
                           (encode_remember_me (split_on (CHR ''$'') (password_hash rt (uuid_v4 rt)))
                              (uuid_v4 rt))
                           2592000000]\<rparr>,
                s7, tr6 @ [Is_banned_user (Some A), Save_remember_me A (password_hash rt (uuid_v4 rt))])"
      using h(3) a6 v6 by (simp add: handle_new_sign_in_def Let_def)
    show ?thesis
      using r5 h(1) 7 8 by (simp add: passport_login_def login_steps_tail run_steps_append Let_def)
  qed
  show ?thesis
    using a n c resp ok by (simp add: pl)
qed

text \<open>
  A run of C9: github's 42 is linked to account-7, which is not banned.
\<close>

theorem relogin_signs_in_linked_account_witness:
  "response (passport_login mem_db test_env (github_42 no_cookies) store_linked) = No_response
   \<and> account_id (final_locals (passport_login mem_db test_env (github_42 no_cookies) store_linked))
       = Some ''account-7''
   \<and> cookies (final_locals (passport_login mem_db test_env (github_42 no_cookies) store_linked))
       = [Set_cookie ''remember_me'' ''sha512$salt$2$0000-session'' 2592000000]
   \<and> calls (passport_login mem_db test_env (github_42 no_cookies) store_linked)
       = [Passport_exists ''github'' ''42'', Record_sign_in (Some ''account-7''),
          Is_banned_user (Some ''account-7''),
          Save_remember_me ''account-7'' ''sha512$salt$2$h(salt,h(salt,0000-session))'']
   \<and> accounts (final_store (passport_login mem_db test_env (github_42 no_cookies) store_linked))
       = accounts store_linked"
proof -
  let ?raw = "github_42 no_cookies"
  have 1: "\<not> truthy (cookie (raw_req ?raw) (remember_me_cookie_name (raw_base_url ?raw) False))"
    by (simp add: run_defs test_defs)
  have 2: "passport_exists mem_db store_linked (raw_strategy ?raw) (js_string (raw_id ?raw))
             = Inr (Some ''account-7'')"
    by (simp add: run_defs test_defs)
  have 3: "''account-7'' \<noteq> []" by simp
  have "account_id (final_locals (passport_login mem_db test_env ?raw store_linked))
          = Some ''account-7''"
    using relogin_signs_in_linked_account [OF 1 2 3, of test_env] by (rule conjunct1)
  then show ?thesis
    by (simp add: run_defs test_defs)
qed

text \<open>
  The claim of C9 fails when the linked account is banned: the login is rejected.
\<close>

theorem relogin_banned_counterexample:
  "passport_exists mem_db store_linked_banned ''github'' ''42'' = Inr (Some ''account-7'')
   \<and> cookie (raw_req (github_42 no_cookies)) ''remember_me'' = None
   \<and> response (passport_login mem_db test_env (github_42 no_cookies) store_linked_banned)
       = Send_error ''github'' (Banned (Some ''account-7'') None ''help@example.com'')
   \<and> cookies (final_locals (passport_login mem_db test_env (github_42 no_cookies) store_linked_banned))
       = []"
  by (simp add: run_defs test_defs)

section \<open>The creation of an account\<close>

text \<open>
  Whenever the creation step is entered without an account, the call of
  \<open>create_account\<close> throws the type error: the step calls the database not once and
  leaves the store as it is.
\<close>

lemma creation_always_throws:
  assumes "\<not> truthy (account_id l)"
  shows "fst (maybe_create_account db opts (l, s, tr)) = Some (TypeError ''create_account'')"
    and "snd (snd (maybe_create_account db opts (l, s, tr))) = (s, tr)"
  using assms by (simp_all add: maybe_create_account_def create_account_def Let_def)

text \<open>
  C10 fails on the code. A first login without a list of emails, and one with an empty
  list (no link, no cookie), get to the creation step, where \<open>create_account\<close> throws
  the type error of reading \<open>create_account\<close> of the undefined \<open>opts.database\<close>: the
  login sends that error after the one lookup of the link, and no account is created,
  with or without an email address.
\<close>

theorem account_creation_throws:
  "response (passport_login mem_db test_env ((github_42 no_cookies)\<lparr>raw_emails := None\<rparr>) mem_empty)
     = Send_error ''github'' (TypeError ''create_account'')
   \<and> calls (passport_login mem_db test_env ((github_42 no_cookies)\<lparr>raw_emails := None\<rparr>) mem_empty)
       = [Passport_exists ''github'' ''42'']
   \<and> final_store (passport_login mem_db test_env ((github_42 no_cookies)\<lparr>raw_emails := None\<rparr>) mem_empty)
       = mem_empty
   \<and> accounts mem_empty = []
   \<and> response (passport_login mem_db test_env ((github_42 no_cookies)\<lparr>raw_emails := Some []\<rparr>) mem_empty)
       = Send_error ''github'' (TypeError ''create_account'')
   \<and> final_store (passport_login mem_db test_env ((github_42 no_cookies)\<lparr>raw_emails := Some []\<rparr>) mem_empty)
       = mem_empty"
  by (simp add: run_defs test_defs)

section \<open>Runs of the other scenarios\<close>

text \<open>
  A caller with a live cookie of account-9 and an identity not seen before: the link is
  created for account-9 and no new cookie is set.
\<close>

lemma linked_scenario:
  "response (passport_login mem_db test_env (github_42 (with_remember_me session_cookie)) store_session)
     = No_response
   \<and> links (final_store (passport_login mem_db test_env (github_42 (with_remember_me session_cookie)) store_session))
       = [((''github'', ''42''), ''account-9'')]
   \<and> cookies (final_locals (passport_login mem_db test_env (github_42 (with_remember_me session_cookie)) store_session))
       = []
   \<and> calls (passport_login mem_db test_env (github_42 (with_remember_me session_cookie)) store_session)
       = [Get_remember_me ''sha512$salt$2$h(salt,h(salt,secret))'',
          Passport_exists ''github'' ''42'', Create_passport ''account-9'' ''github'' ''42'',
          Record_sign_in (Some ''account-9''), Is_banned_user (Some ''account-9'')]"
  by (simp add: run_defs test_defs)

text \<open>
  Another strategy with the email of an existing account, and no link: the login is
  rejected with the error that names the email.
\<close>

lemma email_collision_scenario:
  "response (passport_login mem_db test_env
               ((github_42 no_cookies)\<lparr>raw_strategy := ''google'', raw_id := JStr ''99'',
                                       raw_emails := Some [JStr ''A@x.com'']\<rparr>)
               store_linked)
     = Send_error ''google'' (EmailAlreadyRegistered ''a@x.com'' ''google'')
   \<and> final_store (passport_login mem_db test_env
               ((github_42 no_cookies)\<lparr>raw_strategy := ''google'', raw_id := JStr ''99'',
                                       raw_emails := Some [JStr ''A@x.com'']\<rparr>)
               store_linked)
       = store_linked"
  by (simp add: run_defs test_defs)

text \<open>
  A cookie of four fields with an algorithm the keyed hash does not know: the hash
  cannot be computed, the cookie is passed over, and the login goes on to sign the
  linked account in.
\<close>

lemma unhashable_cookie_scenario:
  "response (passport_login mem_db test_env (github_42 (with_remember_me ''md5$salt$2$secret'')) store_linked)
     = No_response
   \<and> calls (passport_login mem_db test_env (github_42 (with_remember_me ''md5$salt$2$secret'')) store_linked)
       = [Passport_exists ''github'' ''42'', Record_sign_in (Some ''account-7''),
          Is_banned_user (Some ''account-7''),
          Save_remember_me ''account-7'' ''sha512$salt$2$h(salt,h(salt,0000-session))'']"
  by (simp add: run_defs test_defs)

end
